theory Spec2Isabelle
  imports Complex_Main "HOL-Library.AList"
begin

section \<open>Data model\<close>

text \<open>
  The service of \<^verbatim>\<open>app.py\<close> keeps three metrics (a counter, a latency histogram and
  an in-flight gauge, lines 47-61), opens one custom span per request, writes one
  structured log record per request and answers with a constant greeting.

  Python strings that reach the handler from the WSGI layer have code points below 256,
  so they are modelled by \<open>string\<close>. The readings of \<^verbatim>\<open>time.time()\<close> are floats in the
  source; the model takes them as reals and only ever uses their order and the sign of
  their difference.
\<close>

type_synonym labelset = "(string \<times> string) list"
  \<comment> \<open>the keyword arguments of \<^verbatim>\<open>.labels(method=..., endpoint=...)\<close>\<close>

type_synonym series_key = "string list"
  \<comment> \<open>the label values of one series, in the order of the declared label names\<close>

datatype error =
    InvalidLabelError
  | InvalidObservationError
  | WorkFailure string

type_synonym 'a result = "error + 'a"

record metric =
  metric_name :: string
  documentation :: string
  labelnames :: "string list"

definition REQUEST_COUNT :: metric where
  "REQUEST_COUNT =
     \<lparr>metric_name = ''http_requests_total'',
      documentation = ''Total HTTP Requests'',
      labelnames = [''method'', ''endpoint'']\<rparr>"

definition REQUEST_LATENCY :: metric where
  "REQUEST_LATENCY =
     \<lparr>metric_name = ''http_request_duration_seconds'',
      documentation = ''HTTP Request Latency'',
      labelnames = [''method'', ''endpoint'']\<rparr>"

definition IN_PROGRESS_REQUESTS :: metric where
  "IN_PROGRESS_REQUESTS =
     \<lparr>metric_name = ''http_requests_in_progress'',
      documentation = ''Number of in-progress HTTP requests'',
      labelnames = [''method'', ''endpoint'']\<rparr>"

record span =
  span_name :: string
  attributes :: "(string \<times> string) list"

text \<open>
  Every call that the handler makes on one of its collaborators (metrics registry, tracer,
  logger) is written to a journal, in program order. The journal is the timeline of a
  run: it tells how often and in which order the operations were performed.
\<close>

datatype call =
    GaugeInc series_key
  | GaugeDec series_key
  | CounterInc series_key
  | Observe series_key real
  | StartSpan string
  | SetAttribute string string
  | EndSpan
  | LogInfo string

record state =
  gauge_series :: "(series_key \<times> int) list"
  counter_series :: "(series_key \<times> nat) list"
  histogram_series :: "(series_key \<times> real list) list"
  current_spans :: "span list"
  export_queue :: "span list"
  log_sink :: "string list"
  calls :: "call list"

record request =
  req_method :: string
  req_headers :: "string \<rightharpoonup> string"

text \<open>
  What the handler reads from outside: the two readings of the wall clock (line 65 and
  line 99) and the outcome of the unit of work wrapped by the \<^verbatim>\<open>try\<close> block. In the
  source that unit of work is the placeholder of lines 92-93, so \<open>work = None\<close> is the
  program as it stands; \<open>work = Some e\<close> is a unit of work that raises \<open>e\<close>.
\<close>

record env =
  time_start :: real
  time_end :: real
  work :: "error option"

section \<open>Python control flow\<close>

type_synonym 'a prog = "state \<Rightarrow> 'a result \<times> state"

definition py_return :: "'a \<Rightarrow> 'a prog" where
  "py_return x s = (Inr x, s)"

definition py_raise :: "error \<Rightarrow> 'a prog" where
  "py_raise e s = (Inl e, s)"

definition py_bind :: "'a prog \<Rightarrow> ('a \<Rightarrow> 'b prog) \<Rightarrow> 'b prog" where
  "py_bind m f s = (case m s of (Inl e, s') \<Rightarrow> (Inl e, s') | (Inr x, s') \<Rightarrow> f x s')"

text \<open>
  \<^verbatim>\<open>try: body finally: cleanup\<close>: the cleanup runs whatever the body did. When the
  cleanup raises, its exception replaces the pending return value or exception.
\<close>

definition try_finally :: "'a prog \<Rightarrow> unit prog \<Rightarrow> 'a prog" where
  "try_finally body cleanup s =
     (case body s of (r, s1) \<Rightarrow>
        (case cleanup s1 of (Inl e, s2) \<Rightarrow> (Inl e, s2) | (Inr _, s2) \<Rightarrow> (r, s2)))"

definition record_call :: "call \<Rightarrow> state \<Rightarrow> state" where
  "record_call c s = s\<lparr>calls := calls s @ [c]\<rparr>"

section \<open>Metrics registry\<close>

text \<open>
  Modelled from the spec: the metrics registry is the third-party metrics library, which
  is not part of the source file. Section 3 of the specification: a series is identified
  by the metric and its label values and holds one accumulator, which starts at zero (a
  histogram starts without observations).
\<close>

definition series_value :: "('k \<times> 'v::zero) list \<Rightarrow> 'k \<Rightarrow> 'v" where
  "series_value al k = (case map_of al k of None \<Rightarrow> 0 | Some v \<Rightarrow> v)"

definition observations :: "(series_key \<times> real list) list \<Rightarrow> series_key \<Rightarrow> real list" where
  "observations al k = (case map_of al k of None \<Rightarrow> [] | Some vs \<Rightarrow> vs)"

definition ensure_series :: "'k \<Rightarrow> 'v \<Rightarrow> ('k \<times> 'v) list \<Rightarrow> ('k \<times> 'v) list" where
  "ensure_series k d al = (case map_of al k of None \<Rightarrow> al @ [(k, d)] | Some _ \<Rightarrow> al)"

text \<open>
  Modelled from the spec: section 4.1, a label set whose key set differs from the
  declared label names of the metric fails with \<open>InvalidLabelError\<close>.
\<close>

definition label_values :: "metric \<Rightarrow> labelset \<Rightarrow> series_key result" where
  "label_values m kwargs =
     (if set (map fst kwargs) = set (labelnames m)
      then Inr (map (\<lambda>n. case map_of kwargs n of Some v \<Rightarrow> v | None \<Rightarrow> []) (labelnames m))
      else Inl InvalidLabelError)"

text \<open>
  Modelled from the spec: section 3, a series is created on the first use of its label
  combination and lives on for the life of the process. \<^verbatim>\<open>.labels(...)\<close> checks the
  label set, creates the series when it is new and hands it out.
\<close>

definition create_gauge_series :: "series_key \<Rightarrow> state \<Rightarrow> state" where
  "create_gauge_series k s = s\<lparr>gauge_series := ensure_series k 0 (gauge_series s)\<rparr>"

definition create_counter_series :: "series_key \<Rightarrow> state \<Rightarrow> state" where
  "create_counter_series k s = s\<lparr>counter_series := ensure_series k 0 (counter_series s)\<rparr>"

definition create_histogram_series :: "series_key \<Rightarrow> state \<Rightarrow> state" where
  "create_histogram_series k s =
     s\<lparr>histogram_series := ensure_series k [] (histogram_series s)\<rparr>"

definition gauge_labels :: "labelset \<Rightarrow> series_key prog" where
  "gauge_labels kwargs s =
     (case label_values IN_PROGRESS_REQUESTS kwargs of
        Inl e \<Rightarrow> (Inl e, s)
      | Inr k \<Rightarrow> (Inr k, create_gauge_series k s))"

definition counter_labels :: "labelset \<Rightarrow> series_key prog" where
  "counter_labels kwargs s =
     (case label_values REQUEST_COUNT kwargs of
        Inl e \<Rightarrow> (Inl e, s)
      | Inr k \<Rightarrow> (Inr k, create_counter_series k s))"

definition histogram_labels :: "labelset \<Rightarrow> series_key prog" where
  "histogram_labels kwargs s =
     (case label_values REQUEST_LATENCY kwargs of
        Inl e \<Rightarrow> (Inl e, s)
      | Inr k \<Rightarrow> (Inr k, create_histogram_series k s))"

text \<open>
  Modelled from the spec: section 4.1, \<open>gauge(name, labelset).increment()\<close> and
  \<open>.decrement()\<close> adjust a signed integer; \<open>counter(name, labelset).increment()\<close> adds 1.
\<close>

definition gauge_add :: "series_key \<Rightarrow> int \<Rightarrow> state \<Rightarrow> state" where
  "gauge_add k d s =
     s\<lparr>gauge_series := AList.update k (series_value (gauge_series s) k + d) (gauge_series s)\<rparr>"

definition counter_add :: "series_key \<Rightarrow> nat \<Rightarrow> state \<Rightarrow> state" where
  "counter_add k d s =
     s\<lparr>counter_series :=
         AList.update k (series_value (counter_series s) k + d) (counter_series s)\<rparr>"

definition gauge_inc :: "series_key \<Rightarrow> unit prog" where
  "gauge_inc k s = (Inr (), record_call (GaugeInc k) (gauge_add k 1 s))"

definition gauge_dec :: "series_key \<Rightarrow> unit prog" where
  "gauge_dec k s = (Inr (), record_call (GaugeDec k) (gauge_add k (- 1) s))"

definition counter_inc :: "series_key \<Rightarrow> unit prog" where
  "counter_inc k s = (Inr (), record_call (CounterInc k) (counter_add k 1 s))"

text \<open>
  Modelled from the spec: section 4.1, \<open>histogram(name, labelset).observe(value)\<close> records
  an observation; a negative value fails with \<open>InvalidObservationError\<close>. The histogram
  of a series is kept as the list of its recorded observations: its total count is the
  length of the list, its sum the sum of the list.
\<close>

definition record_observation :: "series_key \<Rightarrow> real \<Rightarrow> state \<Rightarrow> state" where
  "record_observation k v s =
     s\<lparr>histogram_series :=
         AList.update k (observations (histogram_series s) k @ [v]) (histogram_series s)\<rparr>"

definition histogram_observe :: "series_key \<Rightarrow> real \<Rightarrow> unit prog" where
  "histogram_observe k v s =
     (if v < 0 then (Inl InvalidObservationError, record_call (Observe k v) s)
      else (Inr (), record_call (Observe k v) (record_observation k v s)))"

definition histogram_count :: "state \<Rightarrow> series_key \<Rightarrow> nat" where
  "histogram_count s k = length (observations (histogram_series s) k)"

section \<open>Tracer\<close>

text \<open>
  Modelled from the spec: section 4.2. Starting a span acquires a tracing context (the
  span becomes the current one); closing it releases the context and queues the finished
  span for export. \<open>setAttribute\<close> attaches a key and a value to the current span.
\<close>

definition push_span :: "string \<Rightarrow> state \<Rightarrow> state" where
  "push_span name s =
     s\<lparr>current_spans := \<lparr>span_name = name, attributes = []\<rparr> # current_spans s\<rparr>"

definition pop_span :: "state \<Rightarrow> state" where
  "pop_span s =
     (case current_spans s of
        [] \<Rightarrow> s
      | sp # rest \<Rightarrow> s\<lparr>current_spans := rest, export_queue := export_queue s @ [sp]\<rparr>)"

definition add_attribute :: "string \<Rightarrow> string \<Rightarrow> state \<Rightarrow> state" where
  "add_attribute key val s =
     (case current_spans s of
        [] \<Rightarrow> s
      | sp # rest \<Rightarrow>
          s\<lparr>current_spans := sp\<lparr>attributes := attributes sp @ [(key, val)]\<rparr> # rest\<rparr>)"

definition start_span :: "string \<Rightarrow> state \<Rightarrow> state" where
  "start_span name s = record_call (StartSpan name) (push_span name s)"

definition end_span :: "state \<Rightarrow> state" where
  "end_span s = record_call EndSpan (pop_span s)"

definition set_attribute :: "string \<Rightarrow> string \<Rightarrow> unit prog" where
  "set_attribute key val s = (Inr (), record_call (SetAttribute key val) (add_attribute key val s))"

text \<open>
  \<^verbatim>\<open>with tracer.start_as_current_span(name) as span: body\<close>: the context manager is left
  on every way out of the body, and it does not swallow the body's exception.
\<close>

definition with_span :: "string \<Rightarrow> 'a prog \<Rightarrow> 'a prog" where
  "with_span name body s = (case body (start_span name s) of (r, s1) \<Rightarrow> (r, end_span s1))"

section \<open>Structured logger\<close>

text \<open>
  \<^verbatim>\<open>json.dumps\<close> of the Python standard library with its default arguments, on a
  dictionary from strings to strings: keys in insertion order, separators \<open>", "\<close> and
  \<open>": "\<close>, and every character outside the printable ASCII range, the double quote and
  the backslash escaped.
\<close>

definition hex_digit :: "nat \<Rightarrow> char" where
  "hex_digit n = ''0123456789abcdef'' ! (n mod 16)"

definition escape_char :: "char \<Rightarrow> string" where
  "escape_char c =
     (if c = CHR 0x5C then [CHR 0x5C, CHR 0x5C]
      else if c = CHR 0x22 then [CHR 0x5C, CHR 0x22]
      else if c = CHR 0x08 then [CHR 0x5C, CHR ''b'']
      else if c = CHR 0x0C then [CHR 0x5C, CHR ''f'']
      else if c = CHR 0x0A then [CHR 0x5C, CHR ''n'']
      else if c = CHR 0x0D then [CHR 0x5C, CHR ''r'']
      else if c = CHR 0x09 then [CHR 0x5C, CHR ''t'']
      else if 32 \<le> (of_char c :: nat) \<and> (of_char c :: nat) \<le> 126 then [c]
      else [CHR 0x5C, CHR ''u'', CHR ''0'', CHR ''0'',
            hex_digit ((of_char c :: nat) div 16), hex_digit (of_char c :: nat)])"

definition encode_basestring_ascii :: "string \<Rightarrow> string" where
  "encode_basestring_ascii s = [CHR 0x22] @ concat (map escape_char s) @ [CHR 0x22]"

fun str_join :: "string \<Rightarrow> string list \<Rightarrow> string" where
  "str_join sep [] = []"
| "str_join sep [x] = x"
| "str_join sep (x # y # ys) = x @ sep @ str_join sep (y # ys)"

definition json_dumps :: "(string \<times> string) list \<Rightarrow> string" where
  "json_dumps d =
     ''{'' @ str_join '', ''
              (map (\<lambda>(k, v). encode_basestring_ascii k @ '': '' @ encode_basestring_ascii v) d)
       @ ''}''"

text \<open>
  Modelled from the spec: section 4.3, \<open>emit(event)\<close> writes one record per call to the
  sink. \<^verbatim>\<open>logger.info(msg)\<close>: the logger is configured at level INFO (line 18), so the
  record is emitted. The sink holds one entry per emitted record.
\<close>

definition write_log :: "string \<Rightarrow> state \<Rightarrow> state" where
  "write_log msg s = s\<lparr>log_sink := log_sink s @ [msg]\<rparr>"

definition logger_info :: "string \<Rightarrow> unit prog" where
  "logger_info msg s = (Inr (), record_call (LogInfo msg) (write_log msg s))"

definition headers_get :: "(string \<rightharpoonup> string) \<Rightarrow> string \<Rightarrow> string \<Rightarrow> string" where
  "headers_get hs key dflt = (case hs key of Some v \<Rightarrow> v | None \<Rightarrow> dflt)"

section \<open>The instrumented handler\<close>

definition wrapped_work :: "env \<Rightarrow> unit prog" where
  "wrapped_work env = (case work env of None \<Rightarrow> py_return () | Some e \<Rightarrow> py_raise e)"

text \<open>
  \<^verbatim>\<open>hello\<close>, lines 63-99 of \<^verbatim>\<open>app.py\<close>, statement by statement. Looking the tracer
  up (line 72) changes nothing and is not a step of its own. The \<open>observe\<close> operation of
  the histogram, which the metrics library provides, is a parameter.
\<close>

definition hello_with :: "(series_key \<Rightarrow> real \<Rightarrow> unit prog) \<Rightarrow> env \<Rightarrow> request \<Rightarrow> string prog" where
  "hello_with observe env req =
     (let start_time = time_start env;
          method = req_method req;
          endpoint = ''/''
      in
      py_bind (gauge_labels [(''method'', method), (''endpoint'', endpoint)]) (\<lambda>g.
      py_bind (gauge_inc g) (\<lambda>_.
      try_finally
        (with_span ''hello-endpoint-processing''
           (py_bind (set_attribute ''http.method'' method) (\<lambda>_.
            py_bind (set_attribute ''http.path'' endpoint) (\<lambda>_.
            (let message = ''Hello from Flask on GKE! (Version 1.1 with Tracing)'';
                 log_entry =
                   [(''severity'', ''INFO''),
                    (''message'', message),
                    (''service_name'', ''my-flask-app''),
                    (''http_method'', method),
                    (''http_path'', endpoint),
                    (''request_id'', headers_get (req_headers req) ''X-Request-ID'' ''N/A'')]
             in
             py_bind (logger_info (json_dumps log_entry)) (\<lambda>_.
             py_bind (wrapped_work env) (\<lambda>_.
             py_return message)))))))
        (py_bind (gauge_labels [(''method'', method), (''endpoint'', endpoint)]) (\<lambda>g.
         py_bind (gauge_dec g) (\<lambda>_.
         py_bind (counter_labels [(''method'', method), (''endpoint'', endpoint)]) (\<lambda>c.
         py_bind (counter_inc c) (\<lambda>_.
         py_bind (histogram_labels [(''method'', method), (''endpoint'', endpoint)]) (\<lambda>h.
         observe h (time_end env - start_time))))))))))"

text \<open>The handler on the registry of the specification, whose histogram rejects a negative value.\<close>

definition hello :: "env \<Rightarrow> request \<Rightarrow> string prog" where
  "hello = hello_with histogram_observe"

text \<open>
  A histogram whose \<open>observe\<close> returns normally for every value, such as one that records
  whatever it is given: what the operation does to the state is left open.
\<close>

definition observe_returning ::
  "(series_key \<Rightarrow> real \<Rightarrow> state \<Rightarrow> state) \<Rightarrow> series_key \<Rightarrow> real \<Rightarrow> unit prog" where
  "observe_returning upd k v s = (Inr (), record_call (Observe k v) (upd k v s))"

text \<open>
  A test run: the requests are served one after the other, each with its own clock
  readings and its own unit of work; every response goes to its caller and the state is
  carried on.
\<close>

fun run :: "(env \<times> request) list \<Rightarrow> state \<Rightarrow> state" where
  "run [] s = s"
| "run ((env, req) # rs) s = run rs (snd (hello env req s))"

definition new_calls :: "state \<Rightarrow> state \<Rightarrow> call list" where
  "new_calls s s' = drop (length (calls s)) (calls s')"

text \<open>The value of the in-flight gauge of a series along a journal, after each call.\<close>

definition gauge_step :: "series_key \<Rightarrow> call \<Rightarrow> int \<Rightarrow> int" where
  "gauge_step k c v = (if c = GaugeInc k then v + 1 else if c = GaugeDec k then v - 1 else v)"

fun gauge_history :: "series_key \<Rightarrow> int \<Rightarrow> call list \<Rightarrow> int list" where
  "gauge_history k v [] = []"
| "gauge_history k v (c # cs) = gauge_step k c v # gauge_history k (gauge_step k c v) cs"

section \<open>HTTP surface\<close>

record response =
  status :: nat
  body :: string
  mimetype :: string

text \<open>
  A view function returns either a bare string or a response object. The web framework,
  which is not part of the source file, turns a bare string into a response with status
  200 and its own default content type; the source file does not set that content type,
  so it is a parameter here. A response object built with
  \<^verbatim>\<open>Response(body, mimetype=...)\<close> has status 200 and the given content type.
\<close>

datatype view_result = Text string | Resp response

definition Response :: "string \<Rightarrow> string \<Rightarrow> response" where
  "Response b m = \<lparr>status = 200, body = b, mimetype = m\<rparr>"

definition make_response :: "string \<Rightarrow> view_result \<Rightarrow> response" where
  "make_response default_mimetype rv =
     (case rv of Text b \<Rightarrow> \<lparr>status = 200, body = b, mimetype = default_mimetype\<rparr>
               | Resp r \<Rightarrow> r)"

definition get_root ::
  "string \<Rightarrow> (series_key \<Rightarrow> real \<Rightarrow> unit prog) \<Rightarrow> env \<Rightarrow> request \<Rightarrow> response prog" where
  "get_root default_mimetype observe env req s =
     (case hello_with observe env req s of
        (Inl e, s') \<Rightarrow> (Inl e, s')
      | (Inr msg, s') \<Rightarrow> (Inr (make_response default_mimetype (Text msg)), s'))"

text \<open>
  Modelled from the spec: \<^verbatim>\<open>generate_latest\<close> belongs to the metrics library. Section 6
  of the specification gives the format: a \<open># HELP\<close> and a \<open># TYPE\<close> line per metric,
  then one line per series, \<open>name{label="value",...} numeric\<close>; a histogram has
  \<open>_bucket\<close> lines with an \<open>le\<close> label, a \<open>_sum\<close> and a \<open>_count\<close> line. How a number is
  printed and which bucket boundaries the histogram has are parameters.
\<close>

record exposition =
  num :: "real \<Rightarrow> string"
  buckets :: "real list"

datatype line =
    Help string string
  | Type string string
  | Sample string labelset string

definition render_labelset :: "labelset \<Rightarrow> string" where
  "render_labelset ls =
     ''{'' @ str_join '','' (map (\<lambda>(n, v). n @ ''='' @ [CHR 0x22] @ v @ [CHR 0x22]) ls) @ ''}''"

fun render_line :: "line \<Rightarrow> string" where
  "render_line (Help n d) = ''# HELP '' @ n @ '' '' @ d"
| "render_line (Type n t) = ''# TYPE '' @ n @ '' '' @ t"
| "render_line (Sample n ls v) = n @ render_labelset ls @ '' '' @ v"

definition counter_lines :: "exposition \<Rightarrow> metric \<Rightarrow> (series_key \<times> nat) list \<Rightarrow> line list" where
  "counter_lines ex m al =
     Help (metric_name m) (documentation m) # Type (metric_name m) ''counter'' #
     map (\<lambda>(k, v). Sample (metric_name m) (zip (labelnames m) k) (num ex (real v))) al"

definition gauge_lines :: "exposition \<Rightarrow> metric \<Rightarrow> (series_key \<times> int) list \<Rightarrow> line list" where
  "gauge_lines ex m al =
     Help (metric_name m) (documentation m) # Type (metric_name m) ''gauge'' #
     map (\<lambda>(k, v). Sample (metric_name m) (zip (labelnames m) k) (num ex (of_int v))) al"

definition histogram_series_lines ::
  "exposition \<Rightarrow> metric \<Rightarrow> series_key \<Rightarrow> real list \<Rightarrow> line list" where
  "histogram_series_lines ex m k vs =
     map (\<lambda>b. Sample (metric_name m @ ''_bucket'')
                 (zip (labelnames m) k @ [(''le'', num ex b)])
                 (num ex (real (length (filter (\<lambda>v. v \<le> b) vs))))) (buckets ex)
     @ [Sample (metric_name m @ ''_bucket'')
          (zip (labelnames m) k @ [(''le'', ''+Inf'')]) (num ex (real (length vs))),
        Sample (metric_name m @ ''_sum'') (zip (labelnames m) k) (num ex (sum_list vs)),
        Sample (metric_name m @ ''_count'') (zip (labelnames m) k) (num ex (real (length vs)))]"

definition histogram_lines ::
  "exposition \<Rightarrow> metric \<Rightarrow> (series_key \<times> real list) list \<Rightarrow> line list" where
  "histogram_lines ex m al =
     Help (metric_name m) (documentation m) # Type (metric_name m) ''histogram'' #
     concat (map (\<lambda>(k, vs). histogram_series_lines ex m k vs) al)"

definition snapshot :: "exposition \<Rightarrow> state \<Rightarrow> line list" where
  "snapshot ex s =
     counter_lines ex REQUEST_COUNT (counter_series s)
     @ histogram_lines ex REQUEST_LATENCY (histogram_series s)
     @ gauge_lines ex IN_PROGRESS_REQUESTS (gauge_series s)"

definition generate_latest :: "exposition \<Rightarrow> state \<Rightarrow> string" where
  "generate_latest ex s = concat (map (\<lambda>l. render_line l @ [CHR 0x0A]) (snapshot ex s))"

text \<open>\<^verbatim>\<open>metrics\<close>, lines 102-104.\<close>

definition metrics :: "exposition \<Rightarrow> state \<Rightarrow> response" where
  "metrics ex s = Response (generate_latest ex s) ''text/plain''"

text \<open>Which calls of the journal go to the gauge, to the logger and to the tracer.\<close>

fun is_gauge_call :: "call \<Rightarrow> bool" where
  "is_gauge_call (GaugeInc _) = True"
| "is_gauge_call (GaugeDec _) = True"
| "is_gauge_call _ = False"

fun is_log_call :: "call \<Rightarrow> bool" where
  "is_log_call (LogInfo _) = True"
| "is_log_call _ = False"

fun is_span_call :: "call \<Rightarrow> bool" where
  "is_span_call (StartSpan _) = True"
| "is_span_call EndSpan = True"
| "is_span_call _ = False"

section \<open>Sample inputs\<close>

text \<open>
  The state of a freshly started process, a request with and one without the request-id
  header, and three environments: a clock that advances with a unit of work that
  completes, the same with a unit of work that raises, and a clock that is set back
  between the two readings; and a way of printing numbers for the metrics endpoint.
\<close>

definition initial_state :: state where
  "initial_state =
     \<lparr>gauge_series = [], counter_series = [], histogram_series = [],
      current_spans = [], export_queue = [], log_sink = [], calls = []\<rparr>"

definition plain_request :: request where
  "plain_request = \<lparr>req_method = ''GET'', req_headers = Map.empty\<rparr>"

definition tagged_request :: request where
  "tagged_request = \<lparr>req_method = ''GET'', req_headers = [''X-Request-ID'' \<mapsto> ''abc123'']\<rparr>"

definition ok_env :: env where
  "ok_env = \<lparr>time_start = 10, time_end = 12, work = None\<rparr>"

definition failing_env :: env where
  "failing_env = \<lparr>time_start = 20, time_end = 21, work = Some (WorkFailure ''boom'')\<rparr>"

definition clock_back_env :: env where
  "clock_back_env = \<lparr>time_start = 5, time_end = 3, work = None\<rparr>"

definition sample_exposition :: exposition where
  "sample_exposition = \<lparr>num = (\<lambda>r. if r = 1 then ''1.0'' else ''?''), buckets = []\<rparr>"

section \<open>Effects of the primitive operations\<close>

lemma state_frame [simp]:
  "gauge_series (record_call c s) = gauge_series s"
  "counter_series (record_call c s) = counter_series s"
  "histogram_series (record_call c s) = histogram_series s"
  "current_spans (record_call c s) = current_spans s"
  "export_queue (record_call c s) = export_queue s"
  "log_sink (record_call c s) = log_sink s"
  "counter_series (create_gauge_series k s) = counter_series s"
  "histogram_series (create_gauge_series k s) = histogram_series s"
  "current_spans (create_gauge_series k s) = current_spans s"
  "export_queue (create_gauge_series k s) = export_queue s"
  "log_sink (create_gauge_series k s) = log_sink s"
  "calls (create_gauge_series k s) = calls s"
  "gauge_series (create_counter_series k s) = gauge_series s"
  "histogram_series (create_counter_series k s) = histogram_series s"
  "current_spans (create_counter_series k s) = current_spans s"
  "export_queue (create_counter_series k s) = export_queue s"
  "log_sink (create_counter_series k s) = log_sink s"
  "calls (create_counter_series k s) = calls s"
  "gauge_series (create_histogram_series k s) = gauge_series s"
  "counter_series (create_histogram_series k s) = counter_series s"
  "current_spans (create_histogram_series k s) = current_spans s"
  "export_queue (create_histogram_series k s) = export_queue s"
  "log_sink (create_histogram_series k s) = log_sink s"
  "calls (create_histogram_series k s) = calls s"
  "counter_series (gauge_add k d s) = counter_series s"
  "histogram_series (gauge_add k d s) = histogram_series s"
  "current_spans (gauge_add k d s) = current_spans s"
  "export_queue (gauge_add k d s) = export_queue s"
  "log_sink (gauge_add k d s) = log_sink s"
  "calls (gauge_add k d s) = calls s"
  "gauge_series (counter_add k n s) = gauge_series s"
  "histogram_series (counter_add k n s) = histogram_series s"
  "current_spans (counter_add k n s) = current_spans s"
  "export_queue (counter_add k n s) = export_queue s"
  "log_sink (counter_add k n s) = log_sink s"
  "calls (counter_add k n s) = calls s"
  "gauge_series (record_observation k v s) = gauge_series s"
  "counter_series (record_observation k v s) = counter_series s"
  "current_spans (record_observation k v s) = current_spans s"
  "export_queue (record_observation k v s) = export_queue s"
  "log_sink (record_observation k v s) = log_sink s"
  "calls (record_observation k v s) = calls s"
  "gauge_series (push_span name s) = gauge_series s"
  "counter_series (push_span name s) = counter_series s"
  "histogram_series (push_span name s) = histogram_series s"
  "export_queue (push_span name s) = export_queue s"
  "log_sink (push_span name s) = log_sink s"
  "calls (push_span name s) = calls s"
  "gauge_series (pop_span s) = gauge_series s"
  "counter_series (pop_span s) = counter_series s"
  "histogram_series (pop_span s) = histogram_series s"
  "log_sink (pop_span s) = log_sink s"
  "calls (pop_span s) = calls s"
  "gauge_series (add_attribute key val s) = gauge_series s"
  "counter_series (add_attribute key val s) = counter_series s"
  "histogram_series (add_attribute key val s) = histogram_series s"
  "export_queue (add_attribute key val s) = export_queue s"
  "log_sink (add_attribute key val s) = log_sink s"
  "calls (add_attribute key val s) = calls s"
  "gauge_series (write_log msg s) = gauge_series s"
  "counter_series (write_log msg s) = counter_series s"
  "histogram_series (write_log msg s) = histogram_series s"
  "current_spans (write_log msg s) = current_spans s"
  "export_queue (write_log msg s) = export_queue s"
  "calls (write_log msg s) = calls s"
  by (simp_all add: record_call_def create_gauge_series_def create_counter_series_def
      create_histogram_series_def gauge_add_def counter_add_def record_observation_def
      push_span_def pop_span_def add_attribute_def write_log_def split: list.splits)

lemma state_effect [simp]:
  "calls (record_call c s) = calls s @ [c]"
  "gauge_series (create_gauge_series k s) = ensure_series k 0 (gauge_series s)"
  "counter_series (create_counter_series k s) = ensure_series k 0 (counter_series s)"
  "histogram_series (create_histogram_series k s) = ensure_series k [] (histogram_series s)"
  "gauge_series (gauge_add k d s) =
     AList.update k (series_value (gauge_series s) k + d) (gauge_series s)"
  "counter_series (counter_add k n s) =
     AList.update k (series_value (counter_series s) k + n) (counter_series s)"
  "histogram_series (record_observation k v s) =
     AList.update k (observations (histogram_series s) k @ [v]) (histogram_series s)"
  "current_spans (push_span name s) = \<lparr>span_name = name, attributes = []\<rparr> # current_spans s"
  "current_spans (pop_span s) = tl (current_spans s)"
  "export_queue (pop_span s) = export_queue s @ take 1 (current_spans s)"
  "current_spans (add_attribute key val s) =
     (case current_spans s of [] \<Rightarrow> []
      | sp # rest \<Rightarrow> sp\<lparr>attributes := attributes sp @ [(key, val)]\<rparr> # rest)"
  "log_sink (write_log msg s) = log_sink s @ [msg]"
  by (simp_all add: record_call_def create_gauge_series_def create_counter_series_def
      create_histogram_series_def gauge_add_def counter_add_def record_observation_def
      push_span_def pop_span_def add_attribute_def write_log_def split: list.splits)

lemma label_values_ok [simp]:
  "label_values IN_PROGRESS_REQUESTS [(''method'', m), (''endpoint'', e)] = Inr [m, e]"
  "label_values REQUEST_COUNT [(''method'', m), (''endpoint'', e)] = Inr [m, e]"
  "label_values REQUEST_LATENCY [(''method'', m), (''endpoint'', e)] = Inr [m, e]"
  by (simp_all add: label_values_def IN_PROGRESS_REQUESTS_def REQUEST_COUNT_def REQUEST_LATENCY_def)

lemma series_value_update [simp]: "series_value (AList.update k v al) k' = (if k' = k then v else series_value al k')"
  by (simp add: series_value_def update_conv')

lemma series_value_ensure [simp]: "series_value (ensure_series k 0 al) k' = series_value al k'"
  by (auto simp: series_value_def ensure_series_def split: option.splits if_splits)

lemma observations_update [simp]: "observations (AList.update k v al) k' = (if k' = k then v else observations al k')"
  by (simp add: observations_def update_conv')

lemma observations_ensure [simp]: "observations (ensure_series k [] al) k' = observations al k'"
  by (auto simp: observations_def ensure_series_def split: option.splits if_splits)

lemmas prog_defs = py_bind_def py_return_def py_raise_def try_finally_def with_span_def
  gauge_labels_def counter_labels_def histogram_labels_def gauge_inc_def gauge_dec_def counter_inc_def
  histogram_observe_def start_span_def end_span_def set_attribute_def logger_info_def wrapped_work_def

section \<open>The handler, field by field\<close>

lemma hello_gauge: "series_value (gauge_series (snd (hello env req s))) k = series_value (gauge_series s) k"
  by (simp add: hello_def hello_with_def prog_defs Let_def split: option.splits)

lemma hello_counter:
  "series_value (counter_series (snd (hello env req s))) k =
     series_value (counter_series s) k + (if k = [req_method req, ''/''] then 1 else 0)"
  by (simp add: hello_def hello_with_def prog_defs Let_def split: option.splits)

lemma hello_latency:
  "observations (histogram_series (snd (hello env req s))) k =
     observations (histogram_series s) k @
       (if k = [req_method req, ''/''] \<and> time_start env \<le> time_end env
        then [time_end env - time_start env] else [])"
  by (simp add: hello_def hello_with_def prog_defs Let_def split: option.splits)

lemma hello_calls:
  "calls (snd (hello env req s)) =
     calls s @
     [GaugeInc [req_method req, ''/''],
      StartSpan ''hello-endpoint-processing'',
      SetAttribute ''http.method'' (req_method req),
      SetAttribute ''http.path'' ''/'',
      LogInfo (json_dumps
        [(''severity'', ''INFO''),
         (''message'', ''Hello from Flask on GKE! (Version 1.1 with Tracing)''),
         (''service_name'', ''my-flask-app''),
         (''http_method'', req_method req),
         (''http_path'', ''/''),
         (''request_id'', headers_get (req_headers req) ''X-Request-ID'' ''N/A'')]),
      EndSpan,
      GaugeDec [req_method req, ''/''],
      CounterInc [req_method req, ''/''],
      Observe [req_method req, ''/''] (time_end env - time_start env)]"
  by (simp add: hello_def hello_with_def prog_defs Let_def split: option.splits)

lemma hello_result:
  "fst (hello env req s) =
     (if time_end env < time_start env then Inl InvalidObservationError
      else case work env of
             None \<Rightarrow> Inr ''Hello from Flask on GKE! (Version 1.1 with Tracing)''
           | Some e \<Rightarrow> Inl e)"
  by (simp add: hello_def hello_with_def prog_defs Let_def split: option.splits)

lemma hello_with_returning_result:
  "fst (hello_with (observe_returning upd) env req s) =
     (case work env of
        None \<Rightarrow> Inr ''Hello from Flask on GKE! (Version 1.1 with Tracing)''
      | Some e \<Rightarrow> Inl e)"
  by (simp add: hello_with_def observe_returning_def prog_defs Let_def split: option.splits)

lemma hello_spans: "current_spans (snd (hello env req s)) = current_spans s"
  by (simp add: hello_def hello_with_def prog_defs Let_def split: option.splits)

lemma hello_export:
  "export_queue (snd (hello env req s)) =
     export_queue s @
     [\<lparr>span_name = ''hello-endpoint-processing'',
       attributes = [(''http.method'', req_method req), (''http.path'', ''/'')]\<rparr>]"
  by (simp add: hello_def hello_with_def prog_defs Let_def split: option.splits)

lemma hello_log:
  "log_sink (snd (hello env req s)) =
     log_sink s @
     [json_dumps
        [(''severity'', ''INFO''),
         (''message'', ''Hello from Flask on GKE! (Version 1.1 with Tracing)''),
         (''service_name'', ''my-flask-app''),
         (''http_method'', req_method req),
         (''http_path'', ''/''),
         (''request_id'', headers_get (req_headers req) ''X-Request-ID'' ''N/A'')]]"
  by (simp add: hello_def hello_with_def prog_defs Let_def split: option.splits)

lemma hello_new_calls:
  "new_calls s (snd (hello env req s)) =
     [GaugeInc [req_method req, ''/''],
      StartSpan ''hello-endpoint-processing'',
      SetAttribute ''http.method'' (req_method req),
      SetAttribute ''http.path'' ''/'',
      LogInfo (json_dumps
        [(''severity'', ''INFO''),
         (''message'', ''Hello from Flask on GKE! (Version 1.1 with Tracing)''),
         (''service_name'', ''my-flask-app''),
         (''http_method'', req_method req),
         (''http_path'', ''/''),
         (''request_id'', headers_get (req_headers req) ''X-Request-ID'' ''N/A'')]),
      EndSpan,
      GaugeDec [req_method req, ''/''],
      CounterInc [req_method req, ''/''],
      Observe [req_method req, ''/''] (time_end env - time_start env)]"
  by (simp add: new_calls_def hello_calls)

lemma run_gauge: "series_value (gauge_series (run rs s)) k = series_value (gauge_series s) k"
  by (induction rs arbitrary: s) (auto simp: hello_gauge)

lemma run_counter:
  "series_value (counter_series (run rs s)) k =
     series_value (counter_series s) k +
       length (filter (\<lambda>(env, req). [req_method req, ''/''] = k) rs)"
  by (induction rs arbitrary: s) (auto simp: hello_counter)

lemma run_latency:
  "observations (histogram_series (run rs s)) k =
     observations (histogram_series s) k @
       concat (map (\<lambda>(env, req).
                 if k = [req_method req, ''/''] \<and> time_start env \<le> time_end env
                 then [time_end env - time_start env] else []) rs)"
  by (induction rs arbitrary: s) (auto simp: hello_latency)

lemma run_calls_prefix: "\<exists>ext. calls (run rs s) = calls s @ ext"
proof (induction rs arbitrary: s)
  case Nil
  show ?case by simp
next
  case (Cons a rs)
  obtain env req where a: "a = (env, req)" by (cases a)
  obtain ext where "calls (run rs (snd (hello env req s))) = calls (snd (hello env req s)) @ ext"
    using Cons.IH by blast
  then show ?case by (simp add: a hello_calls)
qed

lemma new_calls_run_Cons:
  "new_calls s (run ((env, req) # rs) s) =
     new_calls s (snd (hello env req s)) @
     new_calls (snd (hello env req s)) (run rs (snd (hello env req s)))"
proof -
  obtain ext where ext: "calls (run rs (snd (hello env req s))) = calls (snd (hello env req s)) @ ext"
    using run_calls_prefix by blast
  show ?thesis
    unfolding new_calls_def by (simp add: ext) (simp add: hello_calls)
qed

lemma gauge_history_append:
  "gauge_history k v (xs @ ys) =
     gauge_history k v xs @ gauge_history k (last (v # gauge_history k v xs)) ys"
  by (induction xs arbitrary: v) auto

lemma last_Cons_append: "last (v # xs @ ys) = last (last (v # xs) # ys)"
  by (cases ys) auto

lemma hello_gauge_history:
  "gauge_history k v (new_calls s (snd (hello env req s))) =
     (if k = [req_method req, ''/'']
      then [v + 1, v + 1, v + 1, v + 1, v + 1, v + 1, v, v, v]
      else [v, v, v, v, v, v, v, v, v])"
  by (simp add: hello_new_calls gauge_step_def)

lemma run_gauge_history:
  "0 \<le> v \<Longrightarrow> (\<forall>x \<in> set (gauge_history k v (new_calls s (run rs s))). 0 \<le> x) \<and>
     last (v # gauge_history k v (new_calls s (run rs s))) = v"
proof (induction rs arbitrary: s)
  case Nil
  show ?case by (simp add: new_calls_def)
next
  case (Cons a rs)
  obtain env req where a: "a = (env, req)" by (cases a)
  have one: "last (v # gauge_history k v (new_calls s (snd (hello env req s)))) = v"
    by (simp add: hello_gauge_history)
  have pos: "\<forall>x \<in> set (gauge_history k v (new_calls s (snd (hello env req s)))). 0 \<le> x"
    using Cons.prems by (simp add: hello_gauge_history)
  have rest: "(\<forall>x \<in> set (gauge_history k v
                 (new_calls (snd (hello env req s)) (run rs (snd (hello env req s))))). 0 \<le> x) \<and>
     last (v # gauge_history k v
                 (new_calls (snd (hello env req s)) (run rs (snd (hello env req s))))) = v"
    using Cons.IH [OF Cons.prems] .
  have split: "gauge_history k v (new_calls s (run (a # rs) s)) =
      gauge_history k v (new_calls s (snd (hello env req s))) @
      gauge_history k v (new_calls (snd (hello env req s)) (run rs (snd (hello env req s))))"
    unfolding a new_calls_run_Cons gauge_history_append one ..
  show ?case
    unfolding split last_Cons_append one using pos rest by auto
qed

section \<open>The log line\<close>

lemma hex_digit_range: "hex_digit n \<in> set ''0123456789abcdef''"
  unfolding hex_digit_def by (rule nth_mem) simp

lemma escape_char_one_line:
  assumes "x \<in> set (escape_char c)"
  shows "x \<noteq> CHR 0x0A \<and> x \<noteq> CHR 0x0D"
proof -
  have hex: "hex_digit n \<noteq> CHR 0x0A \<and> hex_digit n \<noteq> CHR 0x0D" for n
    using hex_digit_range [of n] by auto
  show ?thesis
    using assms hex by (auto simp: escape_char_def split: if_splits)
qed

lemma encode_basestring_ascii_one_line:
  "x \<in> set (encode_basestring_ascii s) \<Longrightarrow> x \<noteq> CHR 0x0A \<and> x \<noteq> CHR 0x0D"
  using escape_char_one_line by (auto simp: encode_basestring_ascii_def)

lemma set_str_join: "set (str_join sep xs) \<subseteq> set sep \<union> (\<Union>x \<in> set xs. set x)"
  by (induction sep xs rule: str_join.induct) auto

lemma json_dumps_one_line:
  "CHR 0x0A \<notin> set (json_dumps d) \<and> CHR 0x0D \<notin> set (json_dumps d)"
proof -
  have item: "x \<noteq> CHR 0x0A \<and> x \<noteq> CHR 0x0D"
    if "x \<in> set (encode_basestring_ascii k @ '': '' @ encode_basestring_ascii v)" for x k v
    using that encode_basestring_ascii_one_line by auto
  have joined: "x \<noteq> CHR 0x0A \<and> x \<noteq> CHR 0x0D"
    if x: "x \<in> set (str_join '', ''
             (map (\<lambda>(k, v). encode_basestring_ascii k @ '': '' @ encode_basestring_ascii v) d))"
    for x
  proof -
    from x set_str_join
    have "x \<in> set '', '' \<union>
            (\<Union>y \<in> set (map (\<lambda>(k, v). encode_basestring_ascii k @ '': '' @ encode_basestring_ascii v) d).
               set y)"
      by blast
    then show ?thesis
      using item by (auto simp del: set_append)
  qed
  show ?thesis
    using joined by (auto simp: json_dumps_def)
qed

section \<open>The latency histogram over a run\<close>

lemma run_latency_clock_ok:
  assumes "\<forall>(env, req) \<in> set rs. req_method req = ''GET'' \<and> time_start env \<le> time_end env"
  shows "observations (histogram_series (run rs s)) [''GET'', ''/''] =
           observations (histogram_series s) [''GET'', ''/''] @
             map (\<lambda>(env, req). time_end env - time_start env) rs"
proof -
  have "concat (map (\<lambda>(env, req).
                 if [''GET'', ''/''] = [req_method req, ''/''] \<and> time_start env \<le> time_end env
                 then [time_end env - time_start env] else []) rs) =
        map (\<lambda>(env, req). time_end env - time_start env) rs"
    using assms by (induction rs) auto
  then show ?thesis
    by (simp add: run_latency)
qed

section \<open>The snapshot\<close>

lemma dom_ensure_series: "fst ` set (ensure_series k d al) = insert k (fst ` set al)"
  by (auto simp: ensure_series_def map_of_eq_None_iff split: option.splits dest!: map_of_SomeD
      intro: rev_image_eqI)

lemma series_value_dom_mem: "k \<in> fst ` set al \<Longrightarrow> (k, series_value al k) \<in> set al"
  by (auto simp: series_value_def map_of_eq_None_iff split: option.splits dest: map_of_SomeD
      intro: rev_image_eqI)

lemma observations_dom_mem: "k \<in> fst ` set al \<Longrightarrow> (k, observations al k) \<in> set al"
  by (auto simp: observations_def map_of_eq_None_iff split: option.splits dest: map_of_SomeD
      intro: rev_image_eqI)

lemma hello_gauge_dom:
  "fst ` set (gauge_series (snd (hello env req s))) =
     insert [req_method req, ''/''] (fst ` set (gauge_series s))"
  by (simp add: hello_def hello_with_def prog_defs Let_def dom_update dom_ensure_series
      split: option.splits)

lemma hello_counter_dom:
  "fst ` set (counter_series (snd (hello env req s))) =
     insert [req_method req, ''/''] (fst ` set (counter_series s))"
  by (simp add: hello_def hello_with_def prog_defs Let_def dom_update dom_ensure_series
      split: option.splits)

lemma hello_histogram_dom:
  "fst ` set (histogram_series (snd (hello env req s))) =
     insert [req_method req, ''/''] (fst ` set (histogram_series s))"
  by (simp add: hello_def hello_with_def prog_defs Let_def dom_update dom_ensure_series
      split: option.splits)

lemma run_gauge_dom:
  "fst ` set (gauge_series (run rs s)) =
     (\<lambda>(env, req). [req_method req, ''/'']) ` set rs \<union> fst ` set (gauge_series s)"
proof (induction rs arbitrary: s)
  case Nil
  show ?case by simp
next
  case (Cons a rs)
  obtain env req where a: "a = (env, req)" by (cases a)
  have "fst ` set (gauge_series (run (a # rs) s)) =
      (\<lambda>(env, req). [req_method req, ''/'']) ` set rs \<union>
      insert [req_method req, ''/''] (fst ` set (gauge_series s))"
    using Cons.IH [of "snd (hello env req s)"] by (simp add: a hello_gauge_dom)
  also have "\<dots> = (\<lambda>(env, req). [req_method req, ''/'']) ` set (a # rs) \<union> fst ` set (gauge_series s)"
    by (auto simp: a)
  finally show ?case .
qed

lemma run_counter_dom:
  "fst ` set (counter_series (run rs s)) =
     (\<lambda>(env, req). [req_method req, ''/'']) ` set rs \<union> fst ` set (counter_series s)"
proof (induction rs arbitrary: s)
  case Nil
  show ?case by simp
next
  case (Cons a rs)
  obtain env req where a: "a = (env, req)" by (cases a)
  have "fst ` set (counter_series (run (a # rs) s)) =
      (\<lambda>(env, req). [req_method req, ''/'']) ` set rs \<union>
      insert [req_method req, ''/''] (fst ` set (counter_series s))"
    using Cons.IH [of "snd (hello env req s)"] by (simp add: a hello_counter_dom)
  also have "\<dots> = (\<lambda>(env, req). [req_method req, ''/'']) ` set (a # rs) \<union> fst ` set (counter_series s)"
    by (auto simp: a)
  finally show ?case .
qed

lemma run_histogram_dom:
  "fst ` set (histogram_series (run rs s)) =
     (\<lambda>(env, req). [req_method req, ''/'']) ` set rs \<union> fst ` set (histogram_series s)"
proof (induction rs arbitrary: s)
  case Nil
  show ?case by simp
next
  case (Cons a rs)
  obtain env req where a: "a = (env, req)" by (cases a)
  have "fst ` set (histogram_series (run (a # rs) s)) =
      (\<lambda>(env, req). [req_method req, ''/'']) ` set rs \<union>
      insert [req_method req, ''/''] (fst ` set (histogram_series s))"
    using Cons.IH [of "snd (hello env req s)"] by (simp add: a hello_histogram_dom)
  also have "\<dots> = (\<lambda>(env, req). [req_method req, ''/'']) ` set (a # rs) \<union> fst ` set (histogram_series s)"
    by (auto simp: a)
  finally show ?case .
qed

lemma header_then_line:
  assumes "x \<in> set ys"
  shows "\<exists>pre mid post. front @ h # t # ys @ back = pre @ [h, t] @ mid @ [x] @ post"
proof -
  from assms obtain ys1 ys2 where "ys = ys1 @ x # ys2"
    by (auto dest: split_list)
  then have "front @ h # t # ys @ back = front @ [h, t] @ ys1 @ [x] @ (ys2 @ back)"
    by simp
  then show ?thesis
    by blast
qed

lemma block_line:
  assumes snap: "snapshot ex s = front @ Help n d # Type n ty # samples @ back"
    and mem: "l \<in> set samples"
  shows "\<exists>pre mid post. map render_line (snapshot ex s) =
           pre @ [''# HELP '' @ n @ '' '' @ d, ''# TYPE '' @ n @ '' '' @ ty] @ mid
           @ [render_line l] @ post"
proof -
  from mem have "render_line l \<in> set (map render_line samples)"
    by simp
  then have "\<exists>pre mid post.
      map render_line front @ render_line (Help n d) # render_line (Type n ty)
        # map render_line samples @ map render_line back =
      pre @ [render_line (Help n d), render_line (Type n ty)] @ mid @ [render_line l] @ post"
    by (rule header_then_line)
  then show ?thesis
    by (simp add: snap)
qed

lemma snapshot_counter_block:
  "snapshot ex s =
     [] @ Help (metric_name REQUEST_COUNT) (documentation REQUEST_COUNT)
        # Type (metric_name REQUEST_COUNT) ''counter''
        # map (\<lambda>(k, v). Sample (metric_name REQUEST_COUNT) (zip (labelnames REQUEST_COUNT) k)
                  (num ex (real v))) (counter_series s)
        @ (histogram_lines ex REQUEST_LATENCY (histogram_series s)
           @ gauge_lines ex IN_PROGRESS_REQUESTS (gauge_series s))"
  by (simp add: snapshot_def counter_lines_def)

lemma snapshot_histogram_block:
  "snapshot ex s =
     counter_lines ex REQUEST_COUNT (counter_series s)
     @ Help (metric_name REQUEST_LATENCY) (documentation REQUEST_LATENCY)
        # Type (metric_name REQUEST_LATENCY) ''histogram''
        # concat (map (\<lambda>(k, vs). histogram_series_lines ex REQUEST_LATENCY k vs)
                  (histogram_series s))
        @ gauge_lines ex IN_PROGRESS_REQUESTS (gauge_series s)"
  by (simp add: snapshot_def histogram_lines_def)

lemma snapshot_gauge_block:
  "snapshot ex s =
     (counter_lines ex REQUEST_COUNT (counter_series s)
      @ histogram_lines ex REQUEST_LATENCY (histogram_series s))
     @ Help (metric_name IN_PROGRESS_REQUESTS) (documentation IN_PROGRESS_REQUESTS)
        # Type (metric_name IN_PROGRESS_REQUESTS) ''gauge''
        # map (\<lambda>(k, v). Sample (metric_name IN_PROGRESS_REQUESTS)
                  (zip (labelnames IN_PROGRESS_REQUESTS) k) (num ex (of_int v))) (gauge_series s)
        @ []"
  by (simp add: snapshot_def gauge_lines_def)

lemma histogram_line_in_block:
  assumes "(k, vs) \<in> set al" and "l \<in> set (histogram_series_lines ex m k vs)"
  shows "l \<in> set (concat (map (\<lambda>(k, vs). histogram_series_lines ex m k vs) al))"
  using assms by (auto intro!: bexI [of _ "(k, vs)"])

lemma histogram_line_in_snapshot:
  assumes "(k, vs) \<in> set (histogram_series s)"
    and "l \<in> set (histogram_series_lines ex REQUEST_LATENCY k vs)"
  shows "render_line l \<in> set (map render_line (snapshot ex s))"
proof -
  have "l \<in> set (snapshot ex s)"
    using histogram_line_in_block [OF assms] by (simp add: snapshot_def histogram_lines_def)
  then show ?thesis
    by simp
qed

lemma render_two_labels:
  "render_line (Sample n [(a, x), (b, y)] v) =
     n @ ''{'' @ a @ ''='' @ [CHR 0x22] @ x @ [CHR 0x22] @ '','' @ b @ ''='' @ [CHR 0x22] @ y
       @ [CHR 0x22] @ ''} '' @ v"
  by (simp add: render_labelset_def)

lemma render_three_labels:
  "render_line (Sample n [(a, x), (b, y), (c, z)] v) =
     n @ ''{'' @ a @ ''='' @ [CHR 0x22] @ x @ [CHR 0x22] @ '','' @ b @ ''='' @ [CHR 0x22] @ y
       @ [CHR 0x22] @ '','' @ c @ ''='' @ [CHR 0x22] @ z @ [CHR 0x22] @ ''} '' @ v"
  by (simp add: render_labelset_def)

lemma get_key_in_run:
  assumes "(env, req) \<in> set rs" and "req_method req = ''GET''"
  shows "[''GET'', ''/''] \<in> (\<lambda>(env, req). [req_method req, ''/'']) ` set rs"
  using assms by (auto intro!: image_eqI [of _ _ "(env, req)"])

lemma snapshot_counter_series:
  assumes "(env, req) \<in> set rs" and "req_method req = ''GET''"
  shows "\<exists>pre mid post a x b y n.
     map render_line (snapshot ex (run rs s)) =
       pre @ [''# HELP http_requests_total Total HTTP Requests'', ''# TYPE http_requests_total counter''] @ mid
       @ [''http_requests_total{'' @ a @ ''='' @ [CHR 0x22] @ x @ [CHR 0x22] @ '','' @ b @ ''='' @ [CHR 0x22] @ y @ [CHR 0x22] @ ''} '' @ num ex (real n)] @ post
     \<and> {(a, x), (b, y)} = {(''method'', ''GET''), (''endpoint'', ''/'')} \<and> 1 \<le> n"
proof -
  let ?k = "[''GET'', ''/'']"
  let ?n = "series_value (counter_series (run rs s)) ?k"
  have "(env, req) \<in> set (filter (\<lambda>(env, req). [req_method req, ''/''] = ?k) rs)"
    using assms by simp
  then have "0 < length (filter (\<lambda>(env, req). [req_method req, ''/''] = ?k) rs)"
    by (rule length_pos_if_in_set)
  then have pos: "1 \<le> ?n"
    unfolding run_counter by linarith
  have "?k \<in> fst ` set (counter_series (run rs s))"
    using get_key_in_run [OF assms] by (simp add: run_counter_dom)
  then have "(?k, ?n) \<in> set (counter_series (run rs s))"
    by (rule series_value_dom_mem)
  then have "(\<lambda>(k, v). Sample (metric_name REQUEST_COUNT) (zip (labelnames REQUEST_COUNT) k)
                  (num ex (real v))) (?k, ?n)
      \<in> set (map (\<lambda>(k, v). Sample (metric_name REQUEST_COUNT) (zip (labelnames REQUEST_COUNT) k)
                  (num ex (real v))) (counter_series (run rs s)))"
    unfolding set_map by (rule imageI)
  from block_line [OF snapshot_counter_block this]
  obtain pre mid post where
    "map render_line (snapshot ex (run rs s)) =
       pre @ [''# HELP '' @ metric_name REQUEST_COUNT @ '' '' @ documentation REQUEST_COUNT,
              ''# TYPE '' @ metric_name REQUEST_COUNT @ '' '' @ ''counter''] @ mid
       @ [render_line ((\<lambda>(k, v). Sample (metric_name REQUEST_COUNT)
            (zip (labelnames REQUEST_COUNT) k) (num ex (real v))) (?k, ?n))] @ post"
    by (elim exE)
  then have lines: "map render_line (snapshot ex (run rs s)) =
       pre @ [''# HELP http_requests_total Total HTTP Requests'',
              ''# TYPE http_requests_total counter''] @ mid
       @ [''http_requests_total{'' @ ''method'' @ ''='' @ [CHR 0x22] @ ''GET'' @ [CHR 0x22]
          @ '','' @ ''endpoint'' @ ''='' @ [CHR 0x22] @ ''/'' @ [CHR 0x22] @ ''} ''
          @ num ex (real ?n)] @ post"
    by (simp add: REQUEST_COUNT_def render_labelset_def)
  show ?thesis
    by (rule exI [of _ pre], rule exI [of _ mid], rule exI [of _ post], rule exI [of _ "''method''"], rule exI [of _ "''GET''"], rule exI [of _ "''endpoint''"], rule exI [of _ "''/''"], rule exI [of _ "?n"],
        intro conjI lines pos refl)
qed

lemma snapshot_histogram_count:
  assumes "(env, req) \<in> set rs" and "req_method req = ''GET''"
  shows "\<exists>pre mid post a x b y.
     map render_line (snapshot ex (run rs s)) =
       pre @ [''# HELP http_request_duration_seconds HTTP Request Latency'', ''# TYPE http_request_duration_seconds histogram''] @ mid
       @ [''http_request_duration_seconds_count{'' @ a @ ''='' @ [CHR 0x22] @ x @ [CHR 0x22] @ '','' @ b @ ''='' @ [CHR 0x22] @ y @ [CHR 0x22] @ ''} '' @ num ex (real (length (observations (histogram_series (run rs s)) [''GET'', ''/''])))] @ post
     \<and> {(a, x), (b, y)} = {(''method'', ''GET''), (''endpoint'', ''/'')}"
proof -
  let ?k = "[''GET'', ''/'']"
  let ?obs = "observations (histogram_series (run rs s)) ?k"
  have "?k \<in> fst ` set (histogram_series (run rs s))"
    using get_key_in_run [OF assms] by (simp add: run_histogram_dom)
  then have series: "(?k, ?obs) \<in> set (histogram_series (run rs s))"
    by (rule observations_dom_mem)
  have "Sample (metric_name REQUEST_LATENCY @ ''_count'') (zip (labelnames REQUEST_LATENCY) ?k)
          (num ex (real (length ?obs)))
        \<in> set (histogram_series_lines ex REQUEST_LATENCY ?k ?obs)"
    by (simp add: histogram_series_lines_def)
  with series
  have "Sample (metric_name REQUEST_LATENCY @ ''_count'') (zip (labelnames REQUEST_LATENCY) ?k)
          (num ex (real (length ?obs)))
        \<in> set (concat (map (\<lambda>(k, vs). histogram_series_lines ex REQUEST_LATENCY k vs)
                   (histogram_series (run rs s))))"
    by (rule histogram_line_in_block)
  from block_line [OF snapshot_histogram_block this]
  obtain pre mid post where
    "map render_line (snapshot ex (run rs s)) =
       pre @ [''# HELP '' @ metric_name REQUEST_LATENCY @ '' '' @ documentation REQUEST_LATENCY,
              ''# TYPE '' @ metric_name REQUEST_LATENCY @ '' '' @ ''histogram''] @ mid
       @ [render_line (Sample (metric_name REQUEST_LATENCY @ ''_count'')
            (zip (labelnames REQUEST_LATENCY) ?k) (num ex (real (length ?obs))))] @ post"
    by (elim exE)
  then have lines: "map render_line (snapshot ex (run rs s)) =
       pre @ [''# HELP http_request_duration_seconds HTTP Request Latency'',
              ''# TYPE http_request_duration_seconds histogram''] @ mid
       @ [''http_request_duration_seconds_count{'' @ ''method'' @ ''='' @ [CHR 0x22] @ ''GET''
          @ [CHR 0x22] @ '','' @ ''endpoint'' @ ''='' @ [CHR 0x22] @ ''/'' @ [CHR 0x22] @ ''} ''
          @ num ex (real (length ?obs))] @ post"
    by (simp add: REQUEST_LATENCY_def render_labelset_def)
  show ?thesis
    by (rule exI [of _ pre], rule exI [of _ mid], rule exI [of _ post], rule exI [of _ "''method''"], rule exI [of _ "''GET''"], rule exI [of _ "''endpoint''"], rule exI [of _ "''/''"],
        intro conjI lines refl)
qed

lemma snapshot_histogram_sum:
  assumes "(env, req) \<in> set rs" and "req_method req = ''GET''"
  shows "\<exists>a x b y.
     {(a, x), (b, y)} = {(''method'', ''GET''), (''endpoint'', ''/'')}
     \<and> ''http_request_duration_seconds_sum{'' @ a @ ''='' @ [CHR 0x22] @ x @ [CHR 0x22] @ '','' @ b @ ''='' @ [CHR 0x22] @ y @ [CHR 0x22] @ ''} '' @ num ex (sum_list (observations (histogram_series (run rs s)) [''GET'', ''/'']))
         \<in> set (map render_line (snapshot ex (run rs s)))"
proof -
  let ?k = "[''GET'', ''/'']"
  let ?obs = "observations (histogram_series (run rs s)) ?k"
  have "?k \<in> fst ` set (histogram_series (run rs s))"
    using get_key_in_run [OF assms] by (simp add: run_histogram_dom)
  then have series: "(?k, ?obs) \<in> set (histogram_series (run rs s))"
    by (rule observations_dom_mem)
  have "Sample (metric_name REQUEST_LATENCY @ ''_sum'') (zip (labelnames REQUEST_LATENCY) ?k)
          (num ex (sum_list ?obs))
        \<in> set (histogram_series_lines ex REQUEST_LATENCY ?k ?obs)"
    by (simp add: histogram_series_lines_def)
  with series
  have "render_line (Sample (metric_name REQUEST_LATENCY @ ''_sum'')
          (zip (labelnames REQUEST_LATENCY) ?k) (num ex (sum_list ?obs)))
        \<in> set (map render_line (snapshot ex (run rs s)))"
    by (rule histogram_line_in_snapshot)
  then have line: "''http_request_duration_seconds_sum{'' @ ''method'' @ ''='' @ [CHR 0x22] @ ''GET''
          @ [CHR 0x22] @ '','' @ ''endpoint'' @ ''='' @ [CHR 0x22] @ ''/'' @ [CHR 0x22] @ ''} ''
          @ num ex (sum_list ?obs)
        \<in> set (map render_line (snapshot ex (run rs s)))"
    by (simp add: REQUEST_LATENCY_def render_labelset_def)
  show ?thesis
    by (rule exI [of _ "''method''"], rule exI [of _ "''GET''"], rule exI [of _ "''endpoint''"], rule exI [of _ "''/''"],
        intro conjI line refl)
qed

lemma snapshot_histogram_inf:
  assumes "(env, req) \<in> set rs" and "req_method req = ''GET''"
  shows "\<exists>a x b y c z.
     {(a, x), (b, y), (c, z)} = {(''method'', ''GET''), (''endpoint'', ''/''), (''le'', ''+Inf'')}
     \<and> ''http_request_duration_seconds_bucket{'' @ a @ ''='' @ [CHR 0x22] @ x @ [CHR 0x22] @ '','' @ b @ ''='' @ [CHR 0x22] @ y @ [CHR 0x22] @ '','' @ c @ ''='' @ [CHR 0x22] @ z @ [CHR 0x22] @ ''} '' @ num ex (real (length (observations (histogram_series (run rs s)) [''GET'', ''/''])))
         \<in> set (map render_line (snapshot ex (run rs s)))"
proof -
  let ?k = "[''GET'', ''/'']"
  let ?obs = "observations (histogram_series (run rs s)) ?k"
  have "?k \<in> fst ` set (histogram_series (run rs s))"
    using get_key_in_run [OF assms] by (simp add: run_histogram_dom)
  then have series: "(?k, ?obs) \<in> set (histogram_series (run rs s))"
    by (rule observations_dom_mem)
  have "Sample (metric_name REQUEST_LATENCY @ ''_bucket'')
          (zip (labelnames REQUEST_LATENCY) ?k @ [(''le'', ''+Inf'')])
          (num ex (real (length ?obs)))
        \<in> set (histogram_series_lines ex REQUEST_LATENCY ?k ?obs)"
    by (simp add: histogram_series_lines_def)
  with series
  have "render_line (Sample (metric_name REQUEST_LATENCY @ ''_bucket'')
          (zip (labelnames REQUEST_LATENCY) ?k @ [(''le'', ''+Inf'')])
          (num ex (real (length ?obs))))
        \<in> set (map render_line (snapshot ex (run rs s)))"
    by (rule histogram_line_in_snapshot)
  then have line: "''http_request_duration_seconds_bucket{'' @ ''method'' @ ''='' @ [CHR 0x22]
          @ ''GET'' @ [CHR 0x22] @ '','' @ ''endpoint'' @ ''='' @ [CHR 0x22] @ ''/'' @ [CHR 0x22]
          @ '','' @ ''le'' @ ''='' @ [CHR 0x22] @ ''+Inf'' @ [CHR 0x22] @ ''} ''
          @ num ex (real (length ?obs))
        \<in> set (map render_line (snapshot ex (run rs s)))"
    by (simp add: REQUEST_LATENCY_def render_labelset_def)
  show ?thesis
    by (rule exI [of _ "''method''"], rule exI [of _ "''GET''"], rule exI [of _ "''endpoint''"], rule exI [of _ "''/''"], rule exI [of _ "''le''"], rule exI [of _ "''+Inf''"],
        intro conjI line refl)
qed

lemma snapshot_histogram_buckets:
  assumes "(env, req) \<in> set rs" and "req_method req = ''GET''"
  shows "\<forall>bd \<in> set (buckets ex). \<exists>a x b y c z.
     {(a, x), (b, y), (c, z)} = {(''method'', ''GET''), (''endpoint'', ''/''), (''le'', num ex bd)}
     \<and> ''http_request_duration_seconds_bucket{'' @ a @ ''='' @ [CHR 0x22] @ x @ [CHR 0x22] @ '','' @ b @ ''='' @ [CHR 0x22] @ y @ [CHR 0x22] @ '','' @ c @ ''='' @ [CHR 0x22] @ z @ [CHR 0x22] @ ''} '' @ num ex (real (length (filter (\<lambda>v. v \<le> bd) (observations (histogram_series (run rs s)) [''GET'', ''/'']))))
         \<in> set (map render_line (snapshot ex (run rs s)))"
proof
  fix bd
  assume bd: "bd \<in> set (buckets ex)"
  let ?k = "[''GET'', ''/'']"
  let ?obs = "observations (histogram_series (run rs s)) ?k"
  have "?k \<in> fst ` set (histogram_series (run rs s))"
    using get_key_in_run [OF assms] by (simp add: run_histogram_dom)
  then have series: "(?k, ?obs) \<in> set (histogram_series (run rs s))"
    by (rule observations_dom_mem)
  have "Sample (metric_name REQUEST_LATENCY @ ''_bucket'')
          (zip (labelnames REQUEST_LATENCY) ?k @ [(''le'', num ex bd)])
          (num ex (real (length (filter (\<lambda>v. v \<le> bd) ?obs))))
        \<in> set (histogram_series_lines ex REQUEST_LATENCY ?k ?obs)"
    using bd by (simp add: histogram_series_lines_def)
  with series
  have "render_line (Sample (metric_name REQUEST_LATENCY @ ''_bucket'')
          (zip (labelnames REQUEST_LATENCY) ?k @ [(''le'', num ex bd)])
          (num ex (real (length (filter (\<lambda>v. v \<le> bd) ?obs)))))
        \<in> set (map render_line (snapshot ex (run rs s)))"
    by (rule histogram_line_in_snapshot)
  then have line: "''http_request_duration_seconds_bucket{'' @ ''method'' @ ''='' @ [CHR 0x22]
          @ ''GET'' @ [CHR 0x22] @ '','' @ ''endpoint'' @ ''='' @ [CHR 0x22] @ ''/'' @ [CHR 0x22]
          @ '','' @ ''le'' @ ''='' @ [CHR 0x22] @ num ex bd @ [CHR 0x22] @ ''} ''
          @ num ex (real (length (filter (\<lambda>v. v \<le> bd) ?obs)))
        \<in> set (map render_line (snapshot ex (run rs s)))"
    by (simp add: REQUEST_LATENCY_def render_labelset_def)
  show "\<exists>a x b y c z.
     {(a, x), (b, y), (c, z)} = {(''method'', ''GET''), (''endpoint'', ''/''), (''le'', num ex bd)}
     \<and> ''http_request_duration_seconds_bucket{'' @ a @ ''='' @ [CHR 0x22] @ x @ [CHR 0x22] @ '','' @ b @ ''='' @ [CHR 0x22] @ y @ [CHR 0x22] @ '','' @ c @ ''='' @ [CHR 0x22] @ z @ [CHR 0x22] @ ''} '' @ num ex (real (length (filter (\<lambda>v. v \<le> bd) (observations (histogram_series (run rs s)) [''GET'', ''/'']))))
         \<in> set (map render_line (snapshot ex (run rs s)))"
    by (rule exI [of _ "''method''"], rule exI [of _ "''GET''"], rule exI [of _ "''endpoint''"], rule exI [of _ "''/''"], rule exI [of _ "''le''"], rule exI [of _ "num ex bd"],
        intro conjI line refl)
qed

lemma snapshot_gauge_series:
  assumes "(env, req) \<in> set rs" and "req_method req = ''GET''"
  shows "\<exists>pre mid post a x b y.
     map render_line (snapshot ex (run rs s)) =
       pre @ [''# HELP http_requests_in_progress Number of in-progress HTTP requests'', ''# TYPE http_requests_in_progress gauge''] @ mid
       @ [''http_requests_in_progress{'' @ a @ ''='' @ [CHR 0x22] @ x @ [CHR 0x22] @ '','' @ b @ ''='' @ [CHR 0x22] @ y @ [CHR 0x22] @ ''} '' @ num ex (of_int (series_value (gauge_series s) [''GET'', ''/'']))] @ post
     \<and> {(a, x), (b, y)} = {(''method'', ''GET''), (''endpoint'', ''/'')}"
proof -
  let ?k = "[''GET'', ''/'']"
  let ?g = "series_value (gauge_series (run rs s)) ?k"
  have "?k \<in> fst ` set (gauge_series (run rs s))"
    using get_key_in_run [OF assms] by (simp add: run_gauge_dom)
  then have "(?k, ?g) \<in> set (gauge_series (run rs s))"
    by (rule series_value_dom_mem)
  then have "(\<lambda>(k, v). Sample (metric_name IN_PROGRESS_REQUESTS)
                  (zip (labelnames IN_PROGRESS_REQUESTS) k) (num ex (of_int v))) (?k, ?g)
      \<in> set (map (\<lambda>(k, v). Sample (metric_name IN_PROGRESS_REQUESTS)
                  (zip (labelnames IN_PROGRESS_REQUESTS) k) (num ex (of_int v)))
               (gauge_series (run rs s)))"
    unfolding set_map by (rule imageI)
  from block_line [OF snapshot_gauge_block this]
  obtain pre mid post where
    "map render_line (snapshot ex (run rs s)) =
       pre @ [''# HELP '' @ metric_name IN_PROGRESS_REQUESTS @ '' ''
                @ documentation IN_PROGRESS_REQUESTS,
              ''# TYPE '' @ metric_name IN_PROGRESS_REQUESTS @ '' '' @ ''gauge''] @ mid
       @ [render_line ((\<lambda>(k, v). Sample (metric_name IN_PROGRESS_REQUESTS)
            (zip (labelnames IN_PROGRESS_REQUESTS) k) (num ex (of_int v))) (?k, ?g))] @ post"
    by (elim exE)
  then have lines: "map render_line (snapshot ex (run rs s)) =
       pre @ [''# HELP http_requests_in_progress Number of in-progress HTTP requests'',
              ''# TYPE http_requests_in_progress gauge''] @ mid
       @ [''http_requests_in_progress{'' @ ''method'' @ ''='' @ [CHR 0x22] @ ''GET'' @ [CHR 0x22]
          @ '','' @ ''endpoint'' @ ''='' @ [CHR 0x22] @ ''/'' @ [CHR 0x22] @ ''} ''
          @ num ex (of_int (series_value (gauge_series s) ?k))] @ post"
    by (simp add: IN_PROGRESS_REQUESTS_def render_labelset_def run_gauge)
  show ?thesis
    by (rule exI [of _ pre], rule exI [of _ mid], rule exI [of _ post], rule exI [of _ "''method''"], rule exI [of _ "''GET''"], rule exI [of _ "''endpoint''"], rule exI [of _ "''/''"],
        intro conjI lines refl)
qed

section \<open>The claims\<close>

text \<open>
  C1: on every invocation of the handler, whether the unit of work inside the \<open>try\<close>
  block completes or raises, the handler on its way out decrements the in-flight gauge,
  increments the request counter and observes the elapsed duration, each exactly once and
  in this order, all on the series of the (method, endpoint) pair taken at entry: these
  are the last three calls of the invocation, and no other call of it touches the counter
  or the histogram or decrements the gauge. The gauge is back at its value at entry and
  the counter is one higher in the state that is returned together with the outcome, so
  a failure reaches the caller only after the updates. The registry records the observed
  value unless it is negative, which the registry rejects.
\<close>

theorem hello_cleanup_on_every_exit:
  "(\<exists>line. new_calls s (snd (hello env req s)) =
      [GaugeInc [req_method req, ''/''],
       StartSpan ''hello-endpoint-processing'',
       SetAttribute ''http.method'' (req_method req),
       SetAttribute ''http.path'' ''/'',
       LogInfo line,
       EndSpan,
       GaugeDec [req_method req, ''/''],
       CounterInc [req_method req, ''/''],
       Observe [req_method req, ''/''] (time_end env - time_start env)])
   \<and> series_value (gauge_series (snd (hello env req s))) [req_method req, ''/''] =
       series_value (gauge_series s) [req_method req, ''/'']
   \<and> series_value (counter_series (snd (hello env req s))) [req_method req, ''/''] =
       series_value (counter_series s) [req_method req, ''/''] + 1
   \<and> observations (histogram_series (snd (hello env req s))) [req_method req, ''/''] =
       observations (histogram_series s) [req_method req, ''/''] @
         (if time_end env < time_start env then [] else [time_end env - time_start env])
   \<and> fst (hello env req s) =
       (if time_end env < time_start env then Inl InvalidObservationError
        else case work env of
               None \<Rightarrow> Inr ''Hello from Flask on GKE! (Version 1.1 with Tracing)''
             | Some e \<Rightarrow> Inl e)"
proof -
  have journal: "\<exists>line. new_calls s (snd (hello env req s)) =
      [GaugeInc [req_method req, ''/''],
       StartSpan ''hello-endpoint-processing'',
       SetAttribute ''http.method'' (req_method req),
       SetAttribute ''http.path'' ''/'',
       LogInfo line,
       EndSpan,
       GaugeDec [req_method req, ''/''],
       CounterInc [req_method req, ''/''],
       Observe [req_method req, ''/''] (time_end env - time_start env)]"
    by (simp add: hello_new_calls)
  have latency: "observations (histogram_series (snd (hello env req s))) [req_method req, ''/''] =
       observations (histogram_series s) [req_method req, ''/''] @
         (if time_end env < time_start env then [] else [time_end env - time_start env])"
    by (simp add: hello_latency)
  show ?thesis
    using journal latency hello_gauge [of env req s] hello_counter [of env req s]
      hello_result [of env req s]
    by simp
qed

theorem hello_cleanup_on_every_exit_witness:
  "fst (hello failing_env tagged_request initial_state) = Inl (WorkFailure ''boom'')
   \<and> series_value (gauge_series (snd (hello failing_env tagged_request initial_state)))
        [''GET'', ''/''] = 0
   \<and> series_value (counter_series (snd (hello failing_env tagged_request initial_state)))
        [''GET'', ''/''] = 1
   \<and> observations (histogram_series (snd (hello failing_env tagged_request initial_state)))
        [''GET'', ''/''] = [1]"
  using hello_cleanup_on_every_exit [of initial_state failing_env tagged_request]
  by (simp add: failing_env_def tagged_request_def initial_state_def series_value_def
      observations_def)

text \<open>
  C2: after any N requests \<open>GET /\<close> that have all run to completion, whatever their
  outcome, the in-flight gauge of the series (GET, /) is back at its value before the
  run and the request counter of that series has increased by exactly N.
\<close>

theorem run_gauge_restored_counter_plus_N:
  assumes "\<forall>(env, req) \<in> set rs. req_method req = ''GET''"
  shows "series_value (gauge_series (run rs s)) [''GET'', ''/''] =
           series_value (gauge_series s) [''GET'', ''/'']
         \<and> series_value (counter_series (run rs s)) [''GET'', ''/''] =
           series_value (counter_series s) [''GET'', ''/''] + length rs"
proof -
  have "filter (\<lambda>(env, req). [req_method req, ''/''] = [''GET'', ''/'']) rs = rs"
    using assms by (auto intro!: filter_True)
  then show ?thesis
    by (simp add: run_gauge run_counter)
qed

theorem run_gauge_restored_counter_plus_N_witness:
  "series_value (gauge_series
      (run [(ok_env, plain_request), (failing_env, tagged_request), (clock_back_env, plain_request)]
         initial_state)) [''GET'', ''/''] = 0
   \<and> series_value (counter_series
      (run [(ok_env, plain_request), (failing_env, tagged_request), (clock_back_env, plain_request)]
         initial_state)) [''GET'', ''/''] = 3"
  using run_gauge_restored_counter_plus_N
    [of "[(ok_env, plain_request), (failing_env, tagged_request), (clock_back_env, plain_request)]"
        initial_state]
  by (simp add: plain_request_def tagged_request_def initial_state_def series_value_def)

text \<open>
  C3: \<open>GET /metrics\<close> answers with status 200 and content type text/plain, and its body
  is the snapshot of the registry, every line ended by a line feed. Once a \<open>GET /\<close> has
  been served, the lines of the snapshot hold, for each of the three metrics, the line
  \<open># HELP name documentation\<close> directly followed by \<open># TYPE name kind\<close> and, further
  on, the lines of the series (GET, /), each of the form \<open>name{label="value",...} number\<close>
  with the two labels in some order: the request counter with a value of at least 1, the
  histogram with a \<open>_bucket\<close> line for every bucket boundary and for \<open>+Inf\<close> (label
  \<open>le\<close>), a \<open>_sum\<close> and a \<open>_count\<close> line, and the in-flight gauge with its value.
\<close>

theorem metrics_exposes_request_counter:
  assumes "(env, req) \<in> set rs" and "req_method req = ''GET''"
  shows "(metrics ex (run rs s) =
     \<lparr>status = 200,
      body = concat (map (\<lambda>l. l @ [CHR 0x0A]) (map render_line (snapshot ex (run rs s)))),
      mimetype = ''text/plain''\<rparr>)
   \<and> (\<exists>pre mid post a x b y n.
     map render_line (snapshot ex (run rs s)) =
       pre @ [''# HELP http_requests_total Total HTTP Requests'', ''# TYPE http_requests_total counter''] @ mid
       @ [''http_requests_total{'' @ a @ ''='' @ [CHR 0x22] @ x @ [CHR 0x22] @ '','' @ b @ ''='' @ [CHR 0x22] @ y @ [CHR 0x22] @ ''} '' @ num ex (real n)] @ post
     \<and> {(a, x), (b, y)} = {(''method'', ''GET''), (''endpoint'', ''/'')} \<and> 1 \<le> n)
   \<and> (\<exists>pre mid post a x b y.
     map render_line (snapshot ex (run rs s)) =
       pre @ [''# HELP http_request_duration_seconds HTTP Request Latency'', ''# TYPE http_request_duration_seconds histogram''] @ mid
       @ [''http_request_duration_seconds_count{'' @ a @ ''='' @ [CHR 0x22] @ x @ [CHR 0x22] @ '','' @ b @ ''='' @ [CHR 0x22] @ y @ [CHR 0x22] @ ''} '' @ num ex (real (length (observations (histogram_series (run rs s)) [''GET'', ''/''])))] @ post
     \<and> {(a, x), (b, y)} = {(''method'', ''GET''), (''endpoint'', ''/'')})
   \<and> (\<exists>a x b y.
     {(a, x), (b, y)} = {(''method'', ''GET''), (''endpoint'', ''/'')}
     \<and> ''http_request_duration_seconds_sum{'' @ a @ ''='' @ [CHR 0x22] @ x @ [CHR 0x22] @ '','' @ b @ ''='' @ [CHR 0x22] @ y @ [CHR 0x22] @ ''} '' @ num ex (sum_list (observations (histogram_series (run rs s)) [''GET'', ''/'']))
         \<in> set (map render_line (snapshot ex (run rs s))))
   \<and> (\<exists>a x b y c z.
     {(a, x), (b, y), (c, z)} = {(''method'', ''GET''), (''endpoint'', ''/''), (''le'', ''+Inf'')}
     \<and> ''http_request_duration_seconds_bucket{'' @ a @ ''='' @ [CHR 0x22] @ x @ [CHR 0x22] @ '','' @ b @ ''='' @ [CHR 0x22] @ y @ [CHR 0x22] @ '','' @ c @ ''='' @ [CHR 0x22] @ z @ [CHR 0x22] @ ''} '' @ num ex (real (length (observations (histogram_series (run rs s)) [''GET'', ''/''])))
         \<in> set (map render_line (snapshot ex (run rs s))))
   \<and> (\<forall>bd \<in> set (buckets ex). \<exists>a x b y c z.
     {(a, x), (b, y), (c, z)} = {(''method'', ''GET''), (''endpoint'', ''/''), (''le'', num ex bd)}
     \<and> ''http_request_duration_seconds_bucket{'' @ a @ ''='' @ [CHR 0x22] @ x @ [CHR 0x22] @ '','' @ b @ ''='' @ [CHR 0x22] @ y @ [CHR 0x22] @ '','' @ c @ ''='' @ [CHR 0x22] @ z @ [CHR 0x22] @ ''} '' @ num ex (real (length (filter (\<lambda>v. v \<le> bd) (observations (histogram_series (run rs s)) [''GET'', ''/'']))))
         \<in> set (map render_line (snapshot ex (run rs s))))
   \<and> (\<exists>pre mid post a x b y.
     map render_line (snapshot ex (run rs s)) =
       pre @ [''# HELP http_requests_in_progress Number of in-progress HTTP requests'', ''# TYPE http_requests_in_progress gauge''] @ mid
       @ [''http_requests_in_progress{'' @ a @ ''='' @ [CHR 0x22] @ x @ [CHR 0x22] @ '','' @ b @ ''='' @ [CHR 0x22] @ y @ [CHR 0x22] @ ''} '' @ num ex (of_int (series_value (gauge_series s) [''GET'', ''/'']))] @ post
     \<and> {(a, x), (b, y)} = {(''method'', ''GET''), (''endpoint'', ''/'')})"
proof -
  have resp: "metrics ex (run rs s) =
     \<lparr>status = 200,
      body = concat (map (\<lambda>l. l @ [CHR 0x0A]) (map render_line (snapshot ex (run rs s)))),
      mimetype = ''text/plain''\<rparr>"
    by (simp add: metrics_def Response_def generate_latest_def comp_def)
  show ?thesis
    by (intro conjI resp snapshot_counter_series [OF assms] snapshot_histogram_count [OF assms]
        snapshot_histogram_sum [OF assms] snapshot_histogram_inf [OF assms]
        snapshot_histogram_buckets [OF assms] snapshot_gauge_series [OF assms])
qed

theorem metrics_exposes_request_counter_witness:
  "status (metrics sample_exposition (run [(ok_env, plain_request)] initial_state)) = 200
   \<and> (\<exists>pre mid post a x b y n.
     map render_line (snapshot sample_exposition (run [(ok_env, plain_request)] initial_state)) =
       pre @ [''# HELP http_requests_total Total HTTP Requests'', ''# TYPE http_requests_total counter''] @ mid
       @ [''http_requests_total{'' @ a @ ''='' @ [CHR 0x22] @ x @ [CHR 0x22] @ '','' @ b @ ''='' @ [CHR 0x22] @ y @ [CHR 0x22] @ ''} '' @ num sample_exposition (real n)] @ post
     \<and> {(a, x), (b, y)} = {(''method'', ''GET''), (''endpoint'', ''/'')} \<and> 1 \<le> n)"
proof -
  have r: "(ok_env, plain_request) \<in> set [(ok_env, plain_request)]"
    by simp
  have m: "req_method plain_request = ''GET''"
    by (simp add: plain_request_def)
  note all = metrics_exposes_request_counter [OF r m, of sample_exposition initial_state]
  from all have resp: "metrics sample_exposition (run [(ok_env, plain_request)] initial_state) =
     \<lparr>status = 200,
      body = concat (map (\<lambda>l. l @ [CHR 0x0A]) (map render_line (snapshot sample_exposition (run [(ok_env, plain_request)] initial_state)))),
      mimetype = ''text/plain''\<rparr>"
    by (rule conjunct1)
  from all have counter: "\<exists>pre mid post a x b y n.
     map render_line (snapshot sample_exposition (run [(ok_env, plain_request)] initial_state)) =
       pre @ [''# HELP http_requests_total Total HTTP Requests'', ''# TYPE http_requests_total counter''] @ mid
       @ [''http_requests_total{'' @ a @ ''='' @ [CHR 0x22] @ x @ [CHR 0x22] @ '','' @ b @ ''='' @ [CHR 0x22] @ y @ [CHR 0x22] @ ''} '' @ num sample_exposition (real n)] @ post
     \<and> {(a, x), (b, y)} = {(''method'', ''GET''), (''endpoint'', ''/'')} \<and> 1 \<le> n"
    by (rule conjunct1 [OF conjunct2])
  show ?thesis
  proof (rule conjI)
    show "status (metrics sample_exposition (run [(ok_env, plain_request)] initial_state)) = 200"
      unfolding resp by simp
    show "\<exists>pre mid post a x b y n.
     map render_line (snapshot sample_exposition (run [(ok_env, plain_request)] initial_state)) =
       pre @ [''# HELP http_requests_total Total HTTP Requests'', ''# TYPE http_requests_total counter''] @ mid
       @ [''http_requests_total{'' @ a @ ''='' @ [CHR 0x22] @ x @ [CHR 0x22] @ '','' @ b @ ''='' @ [CHR 0x22] @ y @ [CHR 0x22] @ ''} '' @ num sample_exposition (real n)] @ post
     \<and> {(a, x), (b, y)} = {(''method'', ''GET''), (''endpoint'', ''/'')} \<and> 1 \<le> n"
      by (rule counter)
  qed
qed

text \<open>
  C4, as amended: every \<open>GET /\<close> request is answered with status 200 and the fixed
  greeting as body, whatever the two clock readings are. The handler returns a bare
  string and sets no content type, so the response carries the framework's default
  content type for a string result, and not text/plain unless that is the default. This
  is the handler as it stands (no unit of work at lines 92-93) with a histogram whose
  \<open>observe\<close> returns for every value, as one that records whatever it is given does.
\<close>

theorem get_root_greeting:
  "fst (get_root default_mimetype (observe_returning upd)
          \<lparr>time_start = t0, time_end = t1, work = None\<rparr> req s) =
     Inr \<lparr>status = 200,
          body = ''Hello from Flask on GKE! (Version 1.1 with Tracing)'',
          mimetype = default_mimetype\<rparr>"
proof -
  let ?env = "\<lparr>time_start = t0, time_end = t1, work = None\<rparr>"
  have "fst (hello_with (observe_returning upd) ?env req s) =
          Inr ''Hello from Flask on GKE! (Version 1.1 with Tracing)''"
    by (simp add: hello_with_returning_result)
  then show ?thesis
    by (cases "hello_with (observe_returning upd) ?env req s")
      (simp add: get_root_def make_response_def)
qed

theorem get_root_greeting_witness:
  "fst (get_root ''text/html'' (observe_returning record_observation) clock_back_env
          tagged_request initial_state) =
     Inr \<lparr>status = 200,
          body = ''Hello from Flask on GKE! (Version 1.1 with Tracing)'',
          mimetype = ''text/html''\<rparr>"
  unfolding clock_back_env_def
  by (rule get_root_greeting [of "''text/html''" record_observation 5 3 tagged_request initial_state])

text \<open>
  The claim as stated fails where the framework's default content type for a string is
  text/html: the response to \<open>GET /\<close> has status 200 and a content type other than
  text/plain.
\<close>

theorem get_root_content_type_counterexample:
  "\<exists>r. fst (get_root ''text/html'' (observe_returning record_observation) ok_env plain_request
            initial_state) = Inr r
       \<and> status r = 200 \<and> mimetype r \<noteq> ''text/plain''"
proof -
  have "fst (hello_with (observe_returning record_observation) ok_env plain_request initial_state) =
          Inr ''Hello from Flask on GKE! (Version 1.1 with Tracing)''"
    by (simp add: hello_with_returning_result ok_env_def)
  then show ?thesis
    by (cases "hello_with (observe_returning record_observation) ok_env plain_request initial_state")
      (simp add: get_root_def make_response_def)
qed

text \<open>
  C5: the record that a request to \<open>/\<close> writes to the log has, as its request-id field,
  the value of the header \<open>X-Request-ID\<close> as it is when the request has this header, and
  the sentinel \<open>N/A\<close> when it has not.
\<close>

theorem log_event_request_id:
  "log_sink (snd (hello env req s)) =
     log_sink s @
     [json_dumps
        [(''severity'', ''INFO''),
         (''message'', ''Hello from Flask on GKE! (Version 1.1 with Tracing)''),
         (''service_name'', ''my-flask-app''),
         (''http_method'', req_method req),
         (''http_path'', ''/''),
         (''request_id'',
            case req_headers req ''X-Request-ID'' of Some v \<Rightarrow> v | None \<Rightarrow> ''N/A'')]]"
  by (simp add: hello_log headers_get_def)

theorem log_event_request_id_witness:
  "log_sink (snd (hello ok_env tagged_request initial_state)) =
     [''{'' @ [CHR 0x22] @ ''severity'' @ [CHR 0x22] @ '': '' @ [CHR 0x22] @ ''INFO'' @ [CHR 0x22]
      @ '', '' @ [CHR 0x22] @ ''message'' @ [CHR 0x22] @ '': '' @ [CHR 0x22]
      @ ''Hello from Flask on GKE! (Version 1.1 with Tracing)'' @ [CHR 0x22]
      @ '', '' @ [CHR 0x22] @ ''service_name'' @ [CHR 0x22] @ '': '' @ [CHR 0x22]
      @ ''my-flask-app'' @ [CHR 0x22]
      @ '', '' @ [CHR 0x22] @ ''http_method'' @ [CHR 0x22] @ '': '' @ [CHR 0x22] @ ''GET''
      @ [CHR 0x22]
      @ '', '' @ [CHR 0x22] @ ''http_path'' @ [CHR 0x22] @ '': '' @ [CHR 0x22] @ ''/'' @ [CHR 0x22]
      @ '', '' @ [CHR 0x22] @ ''request_id'' @ [CHR 0x22] @ '': '' @ [CHR 0x22] @ ''abc123''
      @ [CHR 0x22] @ ''}'']
   \<and> log_sink (snd (hello ok_env plain_request initial_state)) =
     [json_dumps
        [(''severity'', ''INFO''),
         (''message'', ''Hello from Flask on GKE! (Version 1.1 with Tracing)''),
         (''service_name'', ''my-flask-app''),
         (''http_method'', ''GET''),
         (''http_path'', ''/''),
         (''request_id'', ''N/A'')]]"
  using log_event_request_id [of ok_env tagged_request initial_state]
    log_event_request_id [of ok_env plain_request initial_state]
  by (simp add: tagged_request_def plain_request_def initial_state_def json_dumps_def
      encode_basestring_ascii_def escape_char_def)

text \<open>
  C6: for every negative value handed to the \<open>observe\<close> operation of the latency
  histogram, the call fails with \<open>InvalidObservationError\<close> and the histogram records
  nothing.
\<close>

theorem observe_rejects_negative:
  assumes "v < 0"
  shows "fst (histogram_observe k v s) = Inl InvalidObservationError
         \<and> histogram_series (snd (histogram_observe k v s)) = histogram_series s"
  using assms by (simp add: histogram_observe_def)

theorem observe_rejects_negative_witness:
  "fst (histogram_observe [''GET'', ''/''] (- 2) initial_state) = Inl InvalidObservationError
   \<and> histogram_series (snd (histogram_observe [''GET'', ''/''] (- 2) initial_state)) = []"
  using observe_rejects_negative [of "- 2" "[''GET'', ''/'']" initial_state]
  by (simp add: initial_state_def)

text \<open>
  C7, as amended: after N completed requests \<open>GET /\<close>, in each of which the clock reading
  taken at exit is not earlier than the one taken at entry, the latency histogram of the
  series (GET, /) holds its earlier observations followed by N new ones, so its total
  count is the count before plus N, and every new observation is at least 0.
\<close>

theorem latency_count_plus_N_when_clock_advances:
  assumes "\<forall>(env, req) \<in> set rs. req_method req = ''GET'' \<and> time_start env \<le> time_end env"
  shows "histogram_count (run rs s) [''GET'', ''/''] = histogram_count s [''GET'', ''/''] + length rs
         \<and> take (histogram_count s [''GET'', ''/''])
              (observations (histogram_series (run rs s)) [''GET'', ''/'']) =
             observations (histogram_series s) [''GET'', ''/'']
         \<and> (\<forall>v \<in> set (drop (histogram_count s [''GET'', ''/''])
                          (observations (histogram_series (run rs s)) [''GET'', ''/''])). 0 \<le> v)"
proof -
  have obs: "observations (histogram_series (run rs s)) [''GET'', ''/''] =
           observations (histogram_series s) [''GET'', ''/''] @
             map (\<lambda>(env, req). time_end env - time_start env) rs"
    using assms by (rule run_latency_clock_ok)
  have "\<forall>v \<in> set (map (\<lambda>(env, req). time_end env - time_start env) rs). 0 \<le> v"
    using assms by auto
  then show ?thesis
    by (simp add: obs histogram_count_def)
qed

theorem latency_count_plus_N_when_clock_advances_witness:
  "histogram_count (run [(ok_env, plain_request), (failing_env, tagged_request)] initial_state)
     [''GET'', ''/''] = 2
   \<and> observations (histogram_series
        (run [(ok_env, plain_request), (failing_env, tagged_request)] initial_state))
        [''GET'', ''/''] = [2, 1]"
  using latency_count_plus_N_when_clock_advances
      [of "[(ok_env, plain_request), (failing_env, tagged_request)]" initial_state]
    run_latency_clock_ok
      [of "[(ok_env, plain_request), (failing_env, tagged_request)]" initial_state]
  by (simp add: plain_request_def tagged_request_def ok_env_def failing_env_def
      initial_state_def histogram_count_def observations_def del: run.simps)

text \<open>
  The claim as stated fails when the wall clock is set back between the two readings of
  a request: the value handed to \<open>observe\<close> is negative, the registry rejects it and the
  request ends with \<open>InvalidObservationError\<close>. After this one request it is not the case
  that the count is the count before plus 1 with every observation at least 0.
\<close>

theorem latency_count_clock_set_back_counterexample:
  "fst (hello clock_back_env plain_request initial_state) = Inl InvalidObservationError
   \<and> Observe [''GET'', ''/''] (- 2)
        \<in> set (new_calls initial_state (run [(clock_back_env, plain_request)] initial_state))
   \<and> \<not> (histogram_count (run [(clock_back_env, plain_request)] initial_state) [''GET'', ''/''] =
           histogram_count initial_state [''GET'', ''/''] + 1
         \<and> (\<forall>v \<in> set (observations
                (histogram_series (run [(clock_back_env, plain_request)] initial_state))
                [''GET'', ''/'']). 0 \<le> v))"
  by (simp add: histogram_count_def hello_latency hello_result hello_new_calls
      clock_back_env_def plain_request_def)

text \<open>
  C8: every request to \<open>/\<close> makes exactly one call of the logger and adds exactly one
  entry to the log sink. The entry is the JSON encoding of a record with exactly the
  fields severity, message, service name, http method, http path and request id, and it
  holds no line break, so it is one line.
\<close>

theorem one_log_event_per_request:
  "\<exists>entry.
     log_sink (snd (hello env req s)) = log_sink s @ [json_dumps entry]
     \<and> filter is_log_call (new_calls s (snd (hello env req s))) = [LogInfo (json_dumps entry)]
     \<and> map fst entry =
         [''severity'', ''message'', ''service_name'', ''http_method'', ''http_path'',
          ''request_id'']
     \<and> CHR 0x0A \<notin> set (json_dumps entry) \<and> CHR 0x0D \<notin> set (json_dumps entry)"
proof -
  let ?entry = "[(''severity'', ''INFO''),
         (''message'', ''Hello from Flask on GKE! (Version 1.1 with Tracing)''),
         (''service_name'', ''my-flask-app''),
         (''http_method'', req_method req),
         (''http_path'', ''/''),
         (''request_id'', headers_get (req_headers req) ''X-Request-ID'' ''N/A'')]"
  have sink: "log_sink (snd (hello env req s)) = log_sink s @ [json_dumps ?entry]"
    by (rule hello_log)
  have journal:
    "filter is_log_call (new_calls s (snd (hello env req s))) = [LogInfo (json_dumps ?entry)]"
    by (simp add: hello_new_calls)
  have keys: "map fst ?entry =
         [''severity'', ''message'', ''service_name'', ''http_method'', ''http_path'',
          ''request_id'']"
    by simp
  from json_dumps_one_line [of ?entry]
  have line: "CHR 0x0A \<notin> set (json_dumps ?entry)" and cr: "CHR 0x0D \<notin> set (json_dumps ?entry)"
    by blast+
  show ?thesis
    by (rule exI [of _ ?entry]) (intro conjI sink journal keys line cr)
qed

theorem one_log_event_per_request_witness:
  "length (log_sink (snd (hello failing_env plain_request initial_state))) = 1
   \<and> length (filter is_log_call
        (new_calls initial_state (snd (hello failing_env plain_request initial_state)))) = 1"
proof -
  from one_log_event_per_request [of failing_env plain_request initial_state]
  obtain entry where
    "log_sink (snd (hello failing_env plain_request initial_state)) =
       log_sink initial_state @ [json_dumps entry]"
    and "filter is_log_call
           (new_calls initial_state (snd (hello failing_env plain_request initial_state))) =
         [LogInfo (json_dumps entry)]"
    by (elim exE conjE)
  then show ?thesis
    by (simp add: initial_state_def)
qed

text \<open>
  C9: on every invocation of the handler, whether the unit of work inside the span
  completes or raises and whatever happens afterwards, the span opened for the request
  is closed exactly once: the tracing context is as it was before the request, exactly
  one finished span, with the request's attributes, has been added to the export queue,
  and the tracer has seen one start and one end.
\<close>

theorem span_closed_once_and_queued:
  "current_spans (snd (hello env req s)) = current_spans s
   \<and> export_queue (snd (hello env req s)) =
       export_queue s @
       [\<lparr>span_name = ''hello-endpoint-processing'',
         attributes = [(''http.method'', req_method req), (''http.path'', ''/'')]\<rparr>]
   \<and> filter is_span_call (new_calls s (snd (hello env req s))) =
       [StartSpan ''hello-endpoint-processing'', EndSpan]"
  by (simp add: hello_spans hello_export hello_new_calls)

theorem span_closed_once_and_queued_witness:
  "current_spans (snd (hello failing_env tagged_request initial_state)) = []
   \<and> export_queue (snd (hello failing_env tagged_request initial_state)) =
       [\<lparr>span_name = ''hello-endpoint-processing'',
         attributes = [(''http.method'', ''GET''), (''http.path'', ''/'')]\<rparr>]
   \<and> fst (hello failing_env tagged_request initial_state) = Inl (WorkFailure ''boom'')"
  using span_closed_once_and_queued [of failing_env tagged_request initial_state]
  by (simp add: hello_result failing_env_def tagged_request_def initial_state_def)

text \<open>
  C10: when the in-flight gauge of the series (GET, /) is zero at the start, it is never
  negative along any sequence of complete invocations of the handler: every value it
  takes in the course of the run is at least 0, and the value it has at the end is the
  last of them. Each invocation makes exactly two calls on the gauge, the increment
  first and the decrement of the same series second.
\<close>

theorem gauge_never_negative:
  assumes "series_value (gauge_series s) [''GET'', ''/''] = 0"
  shows "(\<forall>v \<in> set (gauge_history [''GET'', ''/''] 0 (new_calls s (run rs s))). 0 \<le> v)
         \<and> series_value (gauge_series (run rs s)) [''GET'', ''/''] =
             last (0 # gauge_history [''GET'', ''/''] 0 (new_calls s (run rs s)))
         \<and> (\<forall>(env, req) \<in> set rs. \<forall>s'.
               filter is_gauge_call (new_calls s' (snd (hello env req s'))) =
                 [GaugeInc [req_method req, ''/''], GaugeDec [req_method req, ''/'']])"
proof -
  have hist: "(\<forall>v \<in> set (gauge_history [''GET'', ''/''] 0 (new_calls s (run rs s))). 0 \<le> v)
      \<and> last (0 # gauge_history [''GET'', ''/''] 0 (new_calls s (run rs s))) = 0"
    by (rule run_gauge_history) simp
  have final: "series_value (gauge_series (run rs s)) [''GET'', ''/''] = 0"
    using assms by (simp add: run_gauge)
  have order: "filter is_gauge_call (new_calls s' (snd (hello env req s'))) =
                 [GaugeInc [req_method req, ''/''], GaugeDec [req_method req, ''/'']]"
    for env req s'
    by (simp add: hello_new_calls)
  show ?thesis
    using hist final order by simp
qed

theorem gauge_never_negative_witness:
  "list_all (\<lambda>v. 0 \<le> v)
     (gauge_history [''GET'', ''/''] 0
        (new_calls initial_state
           (run [(ok_env, plain_request), (failing_env, tagged_request)] initial_state)))
   \<and> series_value (gauge_series
        (run [(ok_env, plain_request), (failing_env, tagged_request)] initial_state))
        [''GET'', ''/''] = 0"
proof -
  have init: "series_value (gauge_series initial_state) [''GET'', ''/''] = 0"
    by (simp add: initial_state_def series_value_def)
  show ?thesis
    using gauge_never_negative
        [OF init, of "[(ok_env, plain_request), (failing_env, tagged_request)]"]
      run_gauge [of "[(ok_env, plain_request), (failing_env, tagged_request)]" initial_state
        "[''GET'', ''/'']"] init
    by (simp add: list_all_iff del: run.simps)
qed

end
